theory Spec2Isabelle
  imports Main "HOL-Library.Word" "HOL-Library.List_Lexorder" "HOL-Library.Char_ord"
begin

section \<open>Python values shared by the components\<close>

text \<open>
  Python exceptions are values of a sum type: \<open>Inl\<close> carries the exception, \<open>Inr\<close> the
  value. \<open>and_then\<close> sequences two steps and stops at the first exception.
\<close>

definition and_then :: "'e + 'a \<Rightarrow> ('a \<Rightarrow> 'e + 'b) \<Rightarrow> 'e + 'b" where
  "and_then r f = (case r of Inl e \<Rightarrow> Inl e | Inr v \<Rightarrow> f v)"

type_synonym byte = "8 word"

subsection \<open>Hex strings and bytes (\<^verbatim>\<open>bytes.fromhex\<close>, \<^verbatim>\<open>bytes.hex\<close>)\<close>

definition hex_digit_value :: "char \<Rightarrow> nat option" where
  "hex_digit_value c =
     (let n = of_char c :: nat in
      if 48 \<le> n \<and> n \<le> 57 then Some (n - 48)
      else if 97 \<le> n \<and> n \<le> 102 then Some (n - 87)
      else if 65 \<le> n \<and> n \<le> 70 then Some (n - 55)
      else None)"

definition is_space :: "char \<Rightarrow> bool" where
  "is_space c = (of_char c \<in> {9, 10, 11, 12, 13, 32 :: nat})"

text \<open>
  \<^verbatim>\<open>bytes.fromhex\<close>: ASCII whitespace is skipped before each byte, the two digits of a
  byte are adjacent, anything else raises ValueError (here \<open>None\<close>).
\<close>

fun fromhex :: "string \<Rightarrow> byte list option" where
  "fromhex [] = Some []"
| "fromhex [c] = (if is_space c then Some [] else None)"
| "fromhex (c # d # cs) =
     (if is_space c then fromhex (d # cs)
      else case (hex_digit_value c, hex_digit_value d) of
             (Some a, Some b) \<Rightarrow> map_option ((#) (of_nat (16 * a + b))) (fromhex cs)
           | _ \<Rightarrow> None)"

definition hex_char :: "nat \<Rightarrow> char" where
  "hex_char n = ''0123456789abcdef'' ! n"

definition hexstr :: "byte list \<Rightarrow> string" where
  "hexstr bs = concat (map (\<lambda>b. [hex_char (unat b div 16), hex_char (unat b mod 16)]) bs)"

definition startswith_0x :: "string \<Rightarrow> bool" where
  "startswith_0x s = (take 2 s = ''0x'')"


section \<open>Safrole STF (\<^verbatim>\<open>src/jam/core/safrole_manager.py\<close>, \<^verbatim>\<open>src/jam/utils/helpers.py\<close>)\<close>

datatype safrole_error =
    bad_slot | unexpected_ticket | bad_ticket_attempt | bad_ticket_proof
  | bad_ticket_order | duplicate_ticket | missing_extrinsic_for_attempt int
  | rust_server_batch_verify_failed | failed_to_get_gamma_z
  | ZeroDivisionError | IndexError | ValueError | OverflowError

record validator =
  bandersnatch :: string
  ed25519 :: string
  bls :: string
  metadata :: string

record ticket =
  index :: int
  randomness :: "byte list"
  ticket_proof :: "byte list"

datatype seal_keys = Tickets "(string \<times> int) list" | Keys "string list"

text \<open>
  The state dictionary of \<^verbatim>\<open>SafroleManager\<close>. The key \<^verbatim>\<open>lambda_\<close> is the field
  \<open>lambda_prev\<close> (a name cannot end in an underscore here).
\<close>

record safrole_state =
  tau :: int
  eta :: "string list"
  iota :: "validator list"
  gamma_k :: "validator list"
  kappa :: "validator list"
  lambda_prev :: "validator list"
  gamma_a :: "ticket list"
  gamma_s :: seal_keys
  gamma_z :: string
  post_offenders :: "string list"
  E :: int
  Y :: int
  N :: int

record ticket_envelope =
  attempt :: int
  signature :: string

record block_input =
  slot :: int
  entropy :: string
  extrinsic :: "ticket_envelope list"

record vrf_result =
  ok :: bool
  output_hash :: string
  result_attempt :: int

text \<open>
  What the manager takes from outside: the blake2b-256 digest and the two requests to the
  Bandersnatch service (\<open>None\<close> is a failed request).
\<close>

record safrole_env =
  blake2b :: "byte list \<Rightarrow> byte list"
  ring_vrf_verify :: "string \<Rightarrow> string list \<Rightarrow> string \<Rightarrow> ticket_envelope list \<Rightarrow> vrf_result list option"
  compose_gamma_z :: "string list \<Rightarrow> string option"

record epoch_mark_t =
  em_entropy :: string
  em_tickets_entropy :: string
  em_validators :: "(string \<times> string) list"

record header =
  h_slot :: int
  h_seal :: string
  h_vrf_output :: string
  h_epoch_mark :: "epoch_mark_t option"
  h_tickets_mark :: "(string \<times> int) list option"

definition PADDING_VALIDATOR :: validator where
  "PADDING_VALIDATOR =
     \<lparr>bandersnatch = ''0x'' @ replicate 64 CHR ''0'',
      ed25519 = ''0x'' @ replicate 64 CHR ''0'',
      bls = ''0x'' @ replicate 288 CHR ''0'',
      metadata = ''0x'' @ replicate 256 CHR ''0''\<rparr>"

definition hex_to_bytes :: "string \<Rightarrow> safrole_error + byte list" where
  "hex_to_bytes hex_str =
     (if hex_str = [] then Inr []
      else case fromhex (if startswith_0x hex_str then drop 2 hex_str else hex_str) of
             None \<Rightarrow> Inl ValueError
           | Some b \<Rightarrow> Inr b)"

definition bytes_to_hex :: "byte list \<Rightarrow> string" where
  "bytes_to_hex b = ''0x'' @ hexstr b"

definition get_epoch_and_slot_phase :: "int \<Rightarrow> int \<Rightarrow> safrole_error + (int \<times> int)" where
  "get_epoch_and_slot_phase timeslot epoch_length =
     (if epoch_length = 0 then Inl ZeroDivisionError
      else Inr (timeslot div epoch_length, timeslot mod epoch_length))"

definition process_validator_keys_for_offenders :: "validator list \<Rightarrow> string list \<Rightarrow> validator list" where
  "process_validator_keys_for_offenders keys offenders =
     map (\<lambda>k. if ed25519 k \<in> set offenders then PADDING_VALIDATOR else k) keys"

text \<open>The zig-zag loop of \<^verbatim>\<open>z\<close>, on the two indices \<open>left\<close> and \<open>right\<close>.\<close>

function z_loop :: "'a list \<Rightarrow> int \<Rightarrow> int \<Rightarrow> 'a list \<Rightarrow> 'a list" where
  "z_loop sequence left right result =
     (if left \<le> right
      then z_loop sequence (left + 1) (right - 1)
             (result @ [sequence ! nat left]
                     @ (if left < right then [sequence ! nat right] else []))
      else result)"
  by pat_completeness auto
termination
  by (relation "measure (\<lambda>(s, l, r, res). nat (r - l + 1))") auto

definition z :: "'a list \<Rightarrow> 'a list" where
  "z sequence = z_loop sequence 0 (int (length sequence) - 1) []"

definition get_gamma_z_from_rust_server ::
  "safrole_env \<Rightarrow> validator list \<Rightarrow> string list \<Rightarrow> safrole_error + string" where
  "get_gamma_z_from_rust_server env public_keys offenders =
     (let processed_keys = process_validator_keys_for_offenders public_keys offenders;
          bandersnatch_keys =
            map (\<lambda>k. if bandersnatch k =
                          ''0x1ecc3686b60ee3b84b6c7d321d70d5c06e9dac63a4d0a79d731b17c0d04d030d''
                       then ''0x'' @ replicate 64 CHR ''0'' else bandersnatch k) processed_keys
      in case compose_gamma_z env bandersnatch_keys of
           None \<Rightarrow> Inl failed_to_get_gamma_z
         | Some g \<Rightarrow> Inr g)"

definition py_index :: "'a list \<Rightarrow> nat \<Rightarrow> safrole_error + 'a" where
  "py_index xs i = (if i < length xs then Inr (xs ! i) else Inl IndexError)"

text \<open>Python's \<^verbatim>\<open>xs[:n]\<close>: a negative \<open>n\<close> counts from the end.\<close>

definition py_take :: "int \<Rightarrow> 'a list \<Rightarrow> 'a list" where
  "py_take n xs = (if 0 \<le> n then take (nat n) xs else take (nat (int (length xs) + n)) xs)"

subsection \<open>Fallback seal keys (\<^verbatim>\<open>src/jam/protocols/fallback_condition.py\<close>)\<close>

definition to_bytes4_little :: "nat \<Rightarrow> byte list" where
  "to_bytes4_little i = map (\<lambda>k. of_nat (i div 256 ^ k)) [0, 1, 2, 3]"

definition le_bytes_to_int :: "byte list \<Rightarrow> nat" where
  "le_bytes_to_int b = foldr (\<lambda>x acc. unat x + 256 * acc) b 0"

definition fallback_hex_to_bytes :: "string \<Rightarrow> safrole_error + byte list" where
  "fallback_hex_to_bytes hex_str =
     (case fromhex (if startswith_0x hex_str then drop 2 hex_str else hex_str) of
        None \<Rightarrow> Inl ValueError
      | Some b \<Rightarrow> Inr b)"

definition fallback_key :: "safrole_env \<Rightarrow> byte list \<Rightarrow> validator list \<Rightarrow> nat \<Rightarrow> string" where
  "fallback_key env entropy_bytes new_validator_set i =
     (let hash_result = blake2b env (entropy_bytes @ to_bytes4_little i);
          random_index = le_bytes_to_int (take 4 hash_result);
          validator_index = random_index mod length new_validator_set
      in bandersnatch (new_validator_set ! validator_index))"

definition calculate_fallback_gamma_s :: "safrole_env \<Rightarrow> safrole_state \<Rightarrow> safrole_error + string list" where
  "calculate_fallback_gamma_s env post_state =
     and_then (py_index (eta post_state) 2) (\<lambda>eta2.
     and_then (fallback_hex_to_bytes eta2) (\<lambda>entropy_bytes.
       if kappa post_state = [] then Inr []
       else if 2 ^ 32 < E post_state then Inl OverflowError
       else Inr (map (fallback_key env entropy_bytes (kappa post_state))
                   [0 ..< nat (E post_state)])))"


subsection \<open>\<^verbatim>\<open>SafroleManager.process_block\<close>\<close>

definition calculate_eta_update :: "safrole_env \<Rightarrow> byte list \<Rightarrow> byte list \<Rightarrow> byte list" where
  "calculate_eta_update env eta0 vrf_output = blake2b env (eta0 @ vrf_output)"

definition rotate_eta :: "bool \<Rightarrow> string list \<Rightarrow> string \<Rightarrow> safrole_error + string list" where
  "rotate_eta epoch_changed pre_eta new_eta0 =
     (if epoch_changed
      then and_then (py_index pre_eta 0) (\<lambda>e0.
           and_then (py_index pre_eta 1) (\<lambda>e1.
           and_then (py_index pre_eta 2) (\<lambda>e2. Inr [new_eta0, e0, e1, e2])))
      else and_then (py_index pre_eta 1) (\<lambda>e1.
           and_then (py_index pre_eta 2) (\<lambda>e2.
           and_then (py_index pre_eta 3) (\<lambda>e3. Inr [new_eta0, e1, e2, e3]))))"

text \<open>\<^verbatim>\<open>for i in range(len(s) - 1): if s[i] > s[i + 1]: raise\<close>\<close>

fun has_descent :: "string list \<Rightarrow> bool" where
  "has_descent (a # b # rest) = (a > b \<or> has_descent (b # rest))"
| "has_descent _ = False"

text \<open>The dictionary \<^verbatim>\<open>{ex["attempt"]: ex for ex in extrinsic}\<close>: a later entry replaces
  an earlier one with the same attempt.\<close>

definition extrinsic_lookup :: "ticket_envelope list \<Rightarrow> (int \<rightharpoonup> ticket_envelope)" where
  "extrinsic_lookup ext = fold (\<lambda>ex m. m(attempt ex \<mapsto> ex)) ext Map.empty"

definition new_ticket :: "string list \<Rightarrow> (int \<rightharpoonup> ticket_envelope) \<Rightarrow> vrf_result \<Rightarrow> safrole_error + ticket" where
  "new_ticket existing_ticket_ids lookup result =
     (if output_hash result \<in> set existing_ticket_ids then Inl duplicate_ticket
      else case lookup (result_attempt result) of
             None \<Rightarrow> Inl (missing_extrinsic_for_attempt (result_attempt result))
           | Some original_extrinsic \<Rightarrow>
               and_then (hex_to_bytes (signature original_extrinsic)) (\<lambda>p.
               and_then (hex_to_bytes (output_hash result)) (\<lambda>r.
                 Inr \<lparr>index = result_attempt result, randomness = r, ticket_proof = p\<rparr>)))"

fun new_tickets :: "string list \<Rightarrow> (int \<rightharpoonup> ticket_envelope) \<Rightarrow> vrf_result list \<Rightarrow> safrole_error + ticket list" where
  "new_tickets existing_ticket_ids lookup [] = Inr []"
| "new_tickets existing_ticket_ids lookup (result # rest) =
     (case new_ticket existing_ticket_ids lookup result of
        Inl e \<Rightarrow> Inl e
      | Inr t \<Rightarrow> (case new_tickets existing_ticket_ids lookup rest of
                    Inl e \<Rightarrow> Inl e
                  | Inr ts \<Rightarrow> Inr (t # ts)))"

text \<open>Lines 119 to 171: the ticket extrinsic, entered when \<open>m_prime < Y\<close> and the
  extrinsic is not empty.\<close>

definition admit_tickets ::
  "safrole_env \<Rightarrow> safrole_state \<Rightarrow> safrole_state \<Rightarrow> ticket_envelope list \<Rightarrow> safrole_error + safrole_state" where
  "admit_tickets env pre_state current_state ext =
     (if \<exists>t \<in> set ext. attempt t \<ge> N current_state then Inl bad_ticket_attempt
      else and_then (py_index (eta current_state) 2) (\<lambda>eta2_prime.
        case ring_vrf_verify env (gamma_z pre_state) (map bandersnatch (gamma_k pre_state))
               eta2_prime ext of
          None \<Rightarrow> Inl rust_server_batch_verify_failed
        | Some verification_results \<Rightarrow>
            if \<exists>r \<in> set verification_results. \<not> ok r \<or> output_hash r = [] then Inl bad_ticket_proof
            else let submitted_randomness = map output_hash verification_results in
              if has_descent submitted_randomness then Inl bad_ticket_order
              else if card (set submitted_randomness) \<noteq> length submitted_randomness
                   then Inl duplicate_ticket
              else and_then
                     (new_tickets (map (\<lambda>t. bytes_to_hex (randomness t)) (gamma_a current_state))
                        (extrinsic_lookup ext) verification_results)
                     (\<lambda>nts. Inr (current_state
                        \<lparr>gamma_a := py_take (E current_state)
                                      (sort_key randomness (gamma_a current_state @ nts))\<rparr>))))"

definition ticket_ids :: "ticket list \<Rightarrow> (string \<times> int) list" where
  "ticket_ids ts = map (\<lambda>t. (bytes_to_hex (randomness t), index t)) ts"

text \<open>Lines 173 to 201: the epoch transition.\<close>

definition epoch_transition ::
  "safrole_env \<Rightarrow> safrole_state \<Rightarrow> safrole_state \<Rightarrow> int \<Rightarrow> int \<Rightarrow> int \<Rightarrow> safrole_error + safrole_state" where
  "epoch_transition env pre_state current_state prev_epoch prev_m next_epoch =
     (let new_gamma_k = process_validator_keys_for_offenders (iota pre_state) (post_offenders pre_state)
      in and_then (get_gamma_z_from_rust_server env new_gamma_k (post_offenders pre_state)) (\<lambda>gz.
         let cs = current_state
                    \<lparr>lambda_prev := kappa pre_state, kappa := gamma_k pre_state,
                     gamma_k := new_gamma_k, gamma_z := gz\<rparr>;
             is_prev_accumulator_saturated = (int (length (gamma_a pre_state)) = E pre_state);
             is_immediate_epoch_transition = (next_epoch = prev_epoch + 1)
         in and_then
              (if is_immediate_epoch_transition \<and> prev_m \<ge> Y pre_state \<and> is_prev_accumulator_saturated
               then Inr (Tickets (ticket_ids (z (gamma_a pre_state))))
               else and_then (calculate_fallback_gamma_s env cs) (\<lambda>keys. Inr (Keys keys)))
              (\<lambda>gs. Inr (cs\<lparr>gamma_s := gs, gamma_a := []\<rparr>))))"

definition make_header :: "safrole_state \<Rightarrow> safrole_state \<Rightarrow> block_input \<Rightarrow> int \<Rightarrow> int \<Rightarrow> int \<Rightarrow> int \<Rightarrow> header" where
  "make_header pre_state current_state inp prev_epoch prev_m next_epoch m_prime =
     (let epoch_mark =
            (if next_epoch > prev_epoch
             then Some \<lparr>em_entropy = eta pre_state ! 0, em_tickets_entropy = eta pre_state ! 1,
                        em_validators = map (\<lambda>k. (bandersnatch k, ed25519 k)) (gamma_k current_state)\<rparr>
             else None);
          end_of_submission =
            (next_epoch = prev_epoch \<and> prev_m < Y current_state \<and> m_prime \<ge> Y current_state);
          tickets_mark =
            (if end_of_submission \<and> int (length (gamma_a current_state)) = E current_state
             then Some (ticket_ids (z (gamma_a current_state))) else None)
      in \<lparr>h_slot = slot inp, h_seal = ''0x'', h_vrf_output = entropy inp,
          h_epoch_mark = epoch_mark, h_tickets_mark = tickets_mark\<rparr>)"

text \<open>
  The body of \<^verbatim>\<open>process_block\<close> on the deep copy \<^verbatim>\<open>current_state\<close>: the header and
  the state that the last statement assigns to \<^verbatim>\<open>self.state\<close>.
\<close>

definition process_block ::
  "safrole_env \<Rightarrow> safrole_state \<Rightarrow> block_input \<Rightarrow> safrole_error + (header \<times> safrole_state)" where
  "process_block env pre_state inp =
     (if slot inp \<le> tau pre_state then Inl bad_slot
      else if slot inp > tau pre_state + 1 \<and> extrinsic inp \<noteq> [] then Inl unexpected_ticket
      else
        and_then (get_epoch_and_slot_phase (tau pre_state) (E pre_state)) (\<lambda>(prev_epoch, prev_m).
        and_then (get_epoch_and_slot_phase (slot inp) (E pre_state)) (\<lambda>(next_epoch, m_prime).
        and_then (py_index (eta pre_state) 0) (\<lambda>eta0.
        and_then (hex_to_bytes eta0) (\<lambda>eta0_bytes.
        and_then (hex_to_bytes (entropy inp)) (\<lambda>vrf_output.
        and_then (rotate_eta (next_epoch > prev_epoch) (eta pre_state)
                    (bytes_to_hex (calculate_eta_update env eta0_bytes vrf_output))) (\<lambda>new_eta.
        and_then (if m_prime < Y pre_state \<and> extrinsic inp \<noteq> []
                  then admit_tickets env pre_state (pre_state\<lparr>eta := new_eta\<rparr>) (extrinsic inp)
                  else Inr (pre_state\<lparr>eta := new_eta\<rparr>)) (\<lambda>s2.
        and_then (if next_epoch > prev_epoch
                  then epoch_transition env pre_state s2 prev_epoch prev_m next_epoch
                  else Inr s2) (\<lambda>s3.
          Inr (make_header pre_state (s3\<lparr>tau := slot inp\<rparr>) inp prev_epoch prev_m next_epoch m_prime,
               s3\<lparr>tau := slot inp\<rparr>))))))))))"

text \<open>
  The method on the manager object: an exception leaves \<^verbatim>\<open>self.state\<close> as it was, a
  return stores the new state and hands out the header with the post-state whose
  \<^verbatim>\<open>gamma_a\<close> is written as \<open>(id, attempt)\<close> pairs.
\<close>

record SafroleManager =
  state :: safrole_state

definition manager_process_block ::
  "safrole_env \<Rightarrow> SafroleManager \<Rightarrow> block_input
     \<Rightarrow> (safrole_error + (header \<times> safrole_state \<times> (string \<times> int) list)) \<times> SafroleManager" where
  "manager_process_block env self inp =
     (case process_block env (state self) inp of
        Inl e \<Rightarrow> (Inl e, self)
      | Inr (hdr, current_state) \<Rightarrow>
          (Inr (hdr, current_state, ticket_ids (gamma_a current_state)),
           self\<lparr>state := current_state\<rparr>))"




section \<open>History STF and the MMR (\<^verbatim>\<open>Jam-history/history_stf.py\<close>, \<^verbatim>\<open>jam_types.py\<close>)\<close>

text \<open>
  The dataclasses of \<^verbatim>\<open>jam_types.py\<close>. \<open>count\<close> is the number of leaves appended so
  far, a natural number (\<open>u64\<close> in the data model), or \<^verbatim>\<open>None\<close>.
\<close>

record MMR =
  peaks :: "string option list"
  count :: "nat option"

record Reported =
  reported_hash :: string
  exports_root :: string

record BetaBlock =
  header_hash :: string
  state_root :: string
  mmr :: MMR
  reported :: "Reported list"

record Input =
  input_header_hash :: string
  parent_state_root :: string
  accumulate_root :: string
  work_packages :: "Reported list"


text \<open>
  The two digests the module takes from its libraries, as hex digests: keccak-256 of
  \<^verbatim>\<open>Crypto.Hash\<close> (\<open>None\<close> when the library raises) and sha-256 of \<^verbatim>\<open>hashlib\<close>.
\<close>

record history_env =
  keccak_hexdigest :: "byte list \<Rightarrow> string option"
  sha256_hexdigest :: "byte list \<Rightarrow> string"

definition keccak256 :: "history_env \<Rightarrow> byte list \<Rightarrow> string" where
  "keccak256 env data =
     (case keccak_hexdigest env data of
        Some h \<Rightarrow> ''0x'' @ h
      | None \<Rightarrow> ''0x'' @ sha256_hexdigest env data)"

text \<open>
  The first loop of \<^verbatim>\<open>mmr_append\<close>, on \<open>peaks\<close>, \<open>hash_val\<close> and \<open>height\<close>. The result
  is \<open>None\<close> when \<^verbatim>\<open>bytes.fromhex\<close> raises ValueError.
\<close>

function mmr_merge ::
  "history_env \<Rightarrow> nat \<Rightarrow> string option list \<Rightarrow> string \<Rightarrow> nat
     \<Rightarrow> (string option list \<times> string \<times> nat) option" where
  "mmr_merge env cnt pks hash_val height =
     (if and cnt (push_bit height 1) \<noteq> 0
      then if height < length pks \<and> pks ! height \<noteq> None
           then case fromhex (drop 2 (the (pks ! height))) of
                  None \<Rightarrow> None
                | Some peak_bytes \<Rightarrow>
                   (case fromhex (drop 2 hash_val) of
                      None \<Rightarrow> None
                    | Some hash_bytes \<Rightarrow>
                        mmr_merge env cnt (pks[height := None])
                          (keccak256 env (peak_bytes @ hash_bytes)) (height + 1))
           else mmr_merge env cnt pks hash_val (height + 1)
      else Some (pks, hash_val, height))"
  by pat_completeness auto

text \<open>The second loop: \<^verbatim>\<open>while len(peaks) <= height: peaks.append(None)\<close>.\<close>

function mmr_extend :: "string option list \<Rightarrow> nat \<Rightarrow> string option list" where
  "mmr_extend pks height =
     (if length pks \<le> height then mmr_extend (pks @ [None]) height else pks)"
  by pat_completeness auto
termination
  by (relation "measure (\<lambda>(pks, height). Suc height - length pks)") auto

termination mmr_merge
proof (relation "measure (\<lambda>(env, cnt, pks, hash_val, height). Suc cnt - 2 ^ height)")
  show "wf (measure (\<lambda>(env :: history_env, cnt, pks :: string option list,
                       hash_val :: string, height). Suc cnt - 2 ^ height))"
    by simp
next
  have dec: "Suc cnt - 2 ^ Suc height < Suc cnt - 2 ^ height"
    if "and cnt (push_bit height 1) \<noteq> 0" for cnt height :: nat
  proof -
    have "bit cnt height"
      using that by (simp add: push_bit_eq_mult and_exp_eq_0_iff_not_bit)
    then have "2 ^ height \<le> cnt"
      by (rule_tac ccontr) (simp add: bit_iff_odd not_le)
    then show ?thesis by (simp add: diff_less_mono2)
  qed
  fix env :: history_env and cnt height :: nat and pks :: "string option list"
    and hash_val :: string and peak_bytes hash_bytes :: "byte list"
  assume "and cnt (push_bit height 1) \<noteq> 0"
  then show "((env, cnt, pks[height := None], keccak256 env (peak_bytes @ hash_bytes), height + 1),
              (env, cnt, pks, hash_val, height))
             \<in> measure (\<lambda>(env, cnt, pks, hash_val, height). Suc cnt - 2 ^ height)"
    and "((env, cnt, pks, hash_val, height + 1), (env, cnt, pks, hash_val, height))
             \<in> measure (\<lambda>(env, cnt, pks, hash_val, height). Suc cnt - 2 ^ height)"
    using dec [of cnt height] by simp_all
qed

definition mmr_append :: "history_env \<Rightarrow> MMR option \<Rightarrow> string \<Rightarrow> MMR option" where
  "mmr_append env prev leaf =
     (let pks = (case prev of None \<Rightarrow> [] | Some m \<Rightarrow> peaks m);
          cnt = (case prev of None \<Rightarrow> 0
                 | Some m \<Rightarrow> (case count m of None \<Rightarrow> 0 | Some c \<Rightarrow> c))
      in case mmr_merge env cnt pks leaf 0 of
           None \<Rightarrow> None
         | Some (pks', hash_val, height) \<Rightarrow>
             Some \<lparr>peaks = (mmr_extend pks' height)[height := Some hash_val],
                   count = Some (cnt + 1)\<rparr>)"




definition set_last_state_root :: "BetaBlock list \<Rightarrow> string \<Rightarrow> BetaBlock list" where
  "set_last_state_root b root =
     (if length b > 0 then b[length b - 1 := (b ! (length b - 1))\<lparr>state_root := root\<rparr>] else b)"


subsection \<open>The append rule in closed form\<close>

text \<open>
  The height that \<^verbatim>\<open>mmr_append\<close> stops at is the lowest bit of the count that is not
  set; \<open>merge_from\<close> is the running hash after \<open>n\<close> heights from \<open>k\<close> upwards, where a
  peak that is present is combined with it and a height without a peak is passed over.
\<close>

function lowest_clear_bit :: "nat \<Rightarrow> nat" where
  "lowest_clear_bit c = (if odd c then Suc (lowest_clear_bit (c div 2)) else 0)"
  by pat_completeness auto
termination
  by (relation "measure id") (auto elim!: oddE)

fun merge_from :: "history_env \<Rightarrow> string option list \<Rightarrow> string \<Rightarrow> nat \<Rightarrow> nat \<Rightarrow> string option" where
  "merge_from env pks hv k 0 = Some hv"
| "merge_from env pks hv k (Suc n) =
     (if k < length pks \<and> pks ! k \<noteq> None
      then case fromhex (drop 2 (the (pks ! k))) of
             None \<Rightarrow> None
           | Some peak_bytes \<Rightarrow>
              (case fromhex (drop 2 hv) of
                 None \<Rightarrow> None
               | Some hash_bytes \<Rightarrow>
                   merge_from env pks (keccak256 env (peak_bytes @ hash_bytes)) (Suc k) n)
      else merge_from env pks hv (Suc k) n)"

definition clear_range :: "'a option list \<Rightarrow> nat \<Rightarrow> nat \<Rightarrow> 'a option list" where
  "clear_range pks k n = fold (\<lambda>i p. p[i := None]) [k ..< k + n] pks"


text \<open>
  The append rule as the specification words it, for comparison: the leaf is hashed with
  keccak-256 before the heights are merged.
\<close>

definition mmr_append_spec :: "history_env \<Rightarrow> MMR option \<Rightarrow> string \<Rightarrow> MMR option" where
  "mmr_append_spec env prev leaf =
     (let pks = (case prev of None \<Rightarrow> [] | Some m \<Rightarrow> peaks m);
          cnt = (case prev of None \<Rightarrow> 0
                 | Some m \<Rightarrow> (case count m of None \<Rightarrow> 0 | Some c \<Rightarrow> c));
          height = lowest_clear_bit cnt
      in case fromhex (drop 2 leaf) of
           None \<Rightarrow> None
         | Some leaf_bytes \<Rightarrow>
            (case merge_from env pks (keccak256 env leaf_bytes) 0 height of
               None \<Rightarrow> None
             | Some hash_val \<Rightarrow>
                 Some \<lparr>peaks = replicate height None @ [Some hash_val] @ drop (Suc height) pks,
                       count = Some (cnt + 1)\<rparr>))"

section \<open>GRANDPA round (\<^verbatim>\<open>Grandpa/grandpa_prod.py\<close>)\<close>

text \<open>
  A block record is the dictionary the chain keeps for a block; a missing \<^verbatim>\<open>audited\<close>
  key reads as \<^verbatim>\<open>False\<close>.
\<close>

record block_record =
  block_hash :: string
  parent :: "string option"
  height :: int
  block_state_root :: string
  audited :: bool

record BlockTree =
  blocks :: "string \<rightharpoonup> block_record"
  children :: "string option \<rightharpoonup> string list"

definition add_block :: "BlockTree \<Rightarrow> block_record \<Rightarrow> BlockTree" where
  "add_block t r =
     (if block_hash r \<in> dom (blocks t) then t
      else t\<lparr>blocks := (blocks t)(block_hash r \<mapsto> r),
             children := (children t)(parent r \<mapsto>
                 (case children t (parent r) of None \<Rightarrow> [] | Some cs \<Rightarrow> cs) @ [block_hash r])\<rparr>)"

text \<open>
  \<^verbatim>\<open>contains_equivocation_between\<close> walks the parent links from \<open>cur\<close> until it meets
  \<^verbatim>\<open>None\<close>, the empty string or the finalized hash. The walk need not end (a record may
  name itself as parent), so the function is partial: \<open>None\<close> is a walk that never
  returns.
\<close>

partial_function (option) contains_equivocation_between ::
  "BlockTree \<Rightarrow> string option \<Rightarrow> string option \<Rightarrow> bool option" where
  "contains_equivocation_between t cur finalized_hash =
     (case cur of
        None \<Rightarrow> Some False
      | Some c \<Rightarrow>
          if c = [] \<or> cur = finalized_hash then Some False
          else (case (case blocks t c of None \<Rightarrow> None | Some r \<Rightarrow> parent r) of
                  None \<Rightarrow> contains_equivocation_between t None finalized_hash
                | Some p \<Rightarrow>
                    if length (case children t (Some p) of None \<Rightarrow> [] | Some cs \<Rightarrow> cs) > 1
                    then Some True
                    else contains_equivocation_between t (Some p) finalized_hash))"

record VoteMsg =
  vote_round :: nat
  stage :: string
  vote_block_hash :: "string option"
  vote_block_height :: "int option"
  vote_state_root :: "string option"
  validator_id :: int
  sig_ed25519_b64 :: string

record Justification =
  round_number :: nat
  justified_hash :: string
  signatures :: "(int \<times> string) list"

record GrandpaEngine =
  validators :: "int list"
  round :: nat
  threshold :: nat
  finalized :: "string option"

text \<open>\<^verbatim>\<open>GrandpaEngine.__init__\<close>\<close>

definition GrandpaEngine_init :: "int list \<Rightarrow> GrandpaEngine" where
  "GrandpaEngine_init vs =
     \<lparr>validators = vs, round = 0, threshold = (2 * length vs) div 3 + 1, finalized = None\<rparr>"

text \<open>
  \<^verbatim>\<open>Counter(xs)\<close> keeps its keys in the order of their first occurrence, and
  \<^verbatim>\<open>most_common(1)\<close> is the first entry with the greatest count.
\<close>

fun counter_add :: "'a \<Rightarrow> ('a \<times> nat) list \<Rightarrow> ('a \<times> nat) list" where
  "counter_add k [] = [(k, 1)]"
| "counter_add k ((k', n) # rest) =
     (if k = k' then (k', n + 1) # rest else (k', n) # counter_add k rest)"

definition Counter :: "'a list \<Rightarrow> ('a \<times> nat) list" where
  "Counter xs = fold counter_add xs []"

fun first_max :: "('a \<times> nat) \<Rightarrow> ('a \<times> nat) list \<Rightarrow> ('a \<times> nat)" where
  "first_max best [] = best"
| "first_max best (e # rest) = first_max (if snd e > snd best then e else best) rest"

definition most_common1 :: "('a \<times> nat) list \<Rightarrow> ('a \<times> nat) option" where
  "most_common1 cs = (case cs of [] \<Rightarrow> None | e # rest \<Rightarrow> Some (first_max e rest))"

text \<open>
  The chain as the engine sees it when it tallies: the module-level \<^verbatim>\<open>BLOCK_BY_HASH\<close>
  and the tree of the gossip node.
\<close>

record chain =
  BLOCK_BY_HASH :: "string \<rightharpoonup> block_record"
  tree :: BlockTree

text \<open>
  Lines 511 to 545 of \<^verbatim>\<open>run_round\<close>: the tally of the precommits that
  \<^verbatim>\<open>collect_messages\<close> returned (the engine's own precommit among them). The result is
  the pair the method returns and the engine afterwards.
\<close>

definition final_candidate :: "chain \<Rightarrow> GrandpaEngine \<Rightarrow> VoteMsg list \<Rightarrow> string option option" where
  "final_candidate ch self precommits =
     (case most_common1 (Counter (map vote_block_hash precommits)) of
        None \<Rightarrow> Some None
      | Some (bh_opt, cnt) \<Rightarrow>
         (case bh_opt of
            None \<Rightarrow> Some None
          | Some bh \<Rightarrow>
              if cnt \<ge> threshold self
              then (case BLOCK_BY_HASH ch bh of
                      None \<Rightarrow> Some None
                    | Some r \<Rightarrow>
                        if audited r
                        then (case contains_equivocation_between (tree ch) (Some bh) (finalized self) of
                                None \<Rightarrow> None
                              | Some eq \<Rightarrow> if \<not> eq then Some (Some bh) else Some None)
                        else Some None)
              else Some None))"

definition tally_precommits ::
  "chain \<Rightarrow> GrandpaEngine \<Rightarrow> VoteMsg list
     \<Rightarrow> ((string option \<times> Justification option) \<times> GrandpaEngine) option" where
  "tally_precommits ch self precommits =
     (case final_candidate ch self precommits of
        None \<Rightarrow> None
      | Some final_bh \<Rightarrow>
          if final_bh \<noteq> None \<and> final_bh \<noteq> Some []
          then Some ((final_bh,
                      Some \<lparr>round_number = round self, justified_hash = the final_bh,
                            signatures = map (\<lambda>v. (validator_id v, sig_ed25519_b64 v))
                                           (filter (\<lambda>v. vote_block_hash v = final_bh) precommits)\<rparr>),
                     self\<lparr>finalized := final_bh, round := round self + 1\<rparr>)
          else Some ((final_bh, None), self\<lparr>round := round self + 1\<rparr>))"

section \<open>Guarantees STF (\<^verbatim>\<open>Reports-Python/src/onchain/extrinsics/guarantee_processor.py\<close>)\<close>

text \<open>
  The fields of a work-report that the processor reads. The class \<^verbatim>\<open>WorkReport\<close>, its
  \<^verbatim>\<open>generate_digest\<close>, the signature check and the table \<^verbatim>\<open>ONCHAIN_CONSTANTS\<close> are not
  part of the sources at hand; they are parameters of the model.
\<close>

record WorkItem =
  program_hash :: "string option"
  gas_limit :: int

record WorkPackage =
  service_u :: "string option"
  work_items :: "WorkItem list"

record RefinementContext =
  anchor_block_number :: int
  current_epoch :: int
  current_guarantors :: "string list"
  previous_guarantors :: "string list"

record WorkReport =
  work_package :: WorkPackage
  refinement_context :: RefinementContext
  guarantor_public_key :: string
  guarantor_signature :: string
  core_index :: int
  report_slot :: int
  dependencies :: "string list"
  gas_used :: int

record onchain_constants =
  ANCHOR_MAX_AGE_SLOTS :: int
  REPORT_TIMEOUT_SLOTS :: int
  MAX_DEPENDENCIES :: int
  MAX_WORK_REPORT_GAS :: int
  MIN_SERVICE_ITEM_GAS :: int
  SUPER_MAJORITY_THRESHOLD_NUMERATOR :: int
  SUPER_MAJORITY_THRESHOLD_DENOMINATOR :: int

record reports_env =
  constants :: onchain_constants
  verify_signature :: "WorkReport \<Rightarrow> bool"
  generate_digest :: "WorkReport \<Rightarrow> string"

datatype report_reason =
    report_bad_signature | anchor_not_recent | bad_service_details | bad_code_hash
  | wrong_assignment | core_engaged int | future_report_slot | report_before_last_rotation
  | too_many_dependencies | dependency_missing string | too_high_work_report_gas
  | service_item_gas_too_low | duplicate_package_in_recent_history
  | list_index_out_of_range | division_by_zero | timed_out

record PendingReportEntry =
  pending_report :: WorkReport
  received_signatures :: "string set"
  submission_slot :: int

record AccumulationEntry =
  queued_report :: WorkReport
  status :: string

record BadReportEntry =
  reason :: report_reason
  disputed_by :: "string set"

record OffenderEntry =
  dispute_count :: int
  last_dispute_slot :: int

record GlobalState =
  core_status :: "int \<rightharpoonup> string"
  service_registry :: "string \<rightharpoonup> string option"

record OnchainState =
  \<rho> :: "string \<rightharpoonup> PendingReportEntry"
  \<omega> :: "string \<rightharpoonup> AccumulationEntry"
  \<xi> :: "string set"
  \<psi>_B :: "string \<rightharpoonup> BadReportEntry"
  \<psi>_O :: "string \<rightharpoonup> OffenderEntry"
  global_state :: GlobalState

text \<open>Python truthiness of an optional string: \<^verbatim>\<open>None\<close> and the empty string are false.\<close>

definition truthy :: "string option \<Rightarrow> bool" where
  "truthy s = (s \<noteq> None \<and> s \<noteq> Some [])"

text \<open>
  \<^verbatim>\<open>validate_work_report\<close>: \<open>None\<close> when the report passes, otherwise the first
  exception it raises, in the order of the source.
\<close>

definition is_dependency_met :: "OnchainState \<Rightarrow> string list \<Rightarrow> string \<Rightarrow> bool" where
  "is_dependency_met onchain_state current_block_digests dep_hash =
     (dep_hash \<in> \<xi> onchain_state \<or> dep_hash \<in> dom (\<rho> onchain_state)
      \<or> dep_hash \<in> set current_block_digests)"

definition is_guarantor_assigned :: "reports_env \<Rightarrow> WorkReport \<Rightarrow> bool" where
  "is_guarantor_assigned env report =
     (let context = refinement_context report;
          report_epoch = report_slot report div REPORT_TIMEOUT_SLOTS (constants env)
      in (report_epoch = current_epoch context
            \<and> guarantor_public_key report \<in> set (current_guarantors context))
         \<or> (report_epoch = current_epoch context - 1
            \<and> guarantor_public_key report \<in> set (previous_guarantors context)))"

definition validate_work_report ::
  "reports_env \<Rightarrow> WorkReport \<Rightarrow> OnchainState \<Rightarrow> int \<Rightarrow> string list \<Rightarrow> report_reason option" where
  "validate_work_report env report onchain_state current_slot current_block_digests =
     (let c = constants env;
          context = refinement_context report;
          service_id = service_u (work_package report);
          expected_code_hash =
            (case service_id of None \<Rightarrow> None
             | Some u \<Rightarrow> (case service_registry (global_state onchain_state) u of
                            None \<Rightarrow> None | Some h \<Rightarrow> h))
      in if \<not> verify_signature env report then Some report_bad_signature
         else if current_slot - anchor_block_number context > ANCHOR_MAX_AGE_SLOTS c
           then Some anchor_not_recent
         else if \<not> truthy service_id then Some bad_service_details
         else if truthy expected_code_hash \<and> work_items (work_package report) = []
           then Some list_index_out_of_range
         else if truthy expected_code_hash
                 \<and> program_hash (hd (work_items (work_package report))) \<noteq> expected_code_hash
           then Some bad_code_hash
         else if REPORT_TIMEOUT_SLOTS c = 0 then Some division_by_zero
         else if \<not> is_guarantor_assigned env report then Some wrong_assignment
         else if core_status (global_state onchain_state) (core_index report) = Some ''engaged''
           then Some (core_engaged (core_index report))
         else if report_slot report > current_slot then Some future_report_slot
         else if current_slot - report_slot report > REPORT_TIMEOUT_SLOTS c
           then Some report_before_last_rotation
         else if int (length (dependencies report)) > MAX_DEPENDENCIES c
           then Some too_many_dependencies
         else (case filter (\<lambda>d. \<not> is_dependency_met onchain_state current_block_digests d)
                     (dependencies report) of
                 dep_hash # _ \<Rightarrow> Some (dependency_missing dep_hash)
               | [] \<Rightarrow>
                   if gas_used report > MAX_WORK_REPORT_GAS c then Some too_high_work_report_gas
                   else if \<exists>item \<in> set (work_items (work_package report)).
                             gas_limit item < MIN_SERVICE_ITEM_GAS c
                     then Some service_item_gas_too_low
                   else if generate_digest env report \<in> \<xi> onchain_state
                     then Some duplicate_package_in_recent_history
                   else None))"

text \<open>
  \<^verbatim>\<open>math.ceil(a / b)\<close> on integers: the float quotient is correctly rounded, so for the
  sizes of guarantor lists this is the ceiling of the exact quotient.
\<close>

definition ceil_div :: "int \<Rightarrow> int \<Rightarrow> int" where
  "ceil_div a b = - ((- a) div b)"

definition required_signatures :: "reports_env \<Rightarrow> WorkReport \<Rightarrow> int" where
  "required_signatures env report =
     (let total_guarantors = int (length (current_guarantors (refinement_context report)))
                           + int (length (previous_guarantors (refinement_context report)))
      in ceil_div (total_guarantors * SUPER_MAJORITY_THRESHOLD_NUMERATOR (constants env))
           (SUPER_MAJORITY_THRESHOLD_DENOMINATOR (constants env)))"

text \<open>
  \<^verbatim>\<open>process_guarantee_extrinsic\<close>: the value returned (\<open>Inl\<close> for the float division by
  zero, which is the one exception that gets out) and the on-chain state afterwards.
\<close>

definition record_failure :: "reports_env \<Rightarrow> WorkReport \<Rightarrow> OnchainState \<Rightarrow> int \<Rightarrow> report_reason \<Rightarrow> OnchainState" where
  "record_failure env report onchain_state current_slot err =
     onchain_state
       \<lparr>\<psi>_B := (\<psi>_B onchain_state)(generate_digest env report \<mapsto>
                  \<lparr>reason = err, disputed_by = {''system_validation''}\<rparr>),
        \<psi>_O := (\<psi>_O onchain_state)(guarantor_public_key report \<mapsto>
                  (case \<psi>_O onchain_state (guarantor_public_key report) of
                     Some offender_record \<Rightarrow>
                       \<lparr>dispute_count = dispute_count offender_record + 1,
                        last_dispute_slot = current_slot\<rparr>
                   | None \<Rightarrow> \<lparr>dispute_count = 1, last_dispute_slot = current_slot\<rparr>))\<rparr>"

text \<open>Lines 142 to 185, once the entry of the digest holds the new signature.\<close>

definition promote_or_keep ::
  "reports_env \<Rightarrow> WorkReport \<Rightarrow> PendingReportEntry \<Rightarrow> OnchainState \<Rightarrow> int
     \<Rightarrow> (report_reason + bool) \<times> OnchainState" where
  "promote_or_keep env report report_entry onchain_state current_slot =
     (let digest_hash = generate_digest env report;
          st = onchain_state\<lparr>\<rho> := (\<rho> onchain_state)(digest_hash \<mapsto> report_entry)\<rparr>
      in if SUPER_MAJORITY_THRESHOLD_DENOMINATOR (constants env) = 0
         then (Inl division_by_zero, st)
         else if int (card (received_signatures report_entry)) \<ge> required_signatures env report
         then (Inr True,
               st\<lparr>\<rho> := (\<rho> st)(digest_hash := None),
                  \<omega> := (\<omega> st)(digest_hash \<mapsto> \<lparr>queued_report = report, status = ''ready''\<rparr>)\<rparr>)
         else if current_slot - submission_slot report_entry > REPORT_TIMEOUT_SLOTS (constants env)
         then (Inr False,
               st\<lparr>\<rho> := (\<rho> st)(digest_hash := None),
                  \<psi>_B := (\<psi>_B st)(digest_hash \<mapsto>
                             \<lparr>reason = timed_out, disputed_by = {''system_timeout''}\<rparr>)\<rparr>)
         else (Inr True, st))"

definition process_guarantee_extrinsic ::
  "reports_env \<Rightarrow> WorkReport \<Rightarrow> OnchainState \<Rightarrow> int \<Rightarrow> string list
     \<Rightarrow> (report_reason + bool) \<times> OnchainState" where
  "process_guarantee_extrinsic env report onchain_state current_slot current_block_digests =
     (case validate_work_report env report onchain_state current_slot current_block_digests of
        Some err \<Rightarrow> (Inr False, record_failure env report onchain_state current_slot err)
      | None \<Rightarrow>
          let digest_hash = generate_digest env report;
              key = guarantor_public_key report
          in case \<rho> onchain_state digest_hash of
               Some old_entry \<Rightarrow>
                 if key \<in> received_signatures old_entry then (Inr False, onchain_state)
                 else promote_or_keep env report
                        (old_entry\<lparr>received_signatures := insert key (received_signatures old_entry)\<rparr>)
                        onchain_state current_slot
             | None \<Rightarrow>
                 promote_or_keep env report
                   \<lparr>pending_report = report, received_signatures = {key},
                    submission_slot = current_slot\<rparr>
                   onchain_state current_slot)"

section \<open>Assurances STF (\<^verbatim>\<open>assurances/assurances_component.py\<close>)\<close>

text \<open>
  An entry of \<^verbatim>\<open>avail_assignments\<close> is JSON: \<^verbatim>\<open>null\<close>, a dictionary with the key
  \<^verbatim>\<open>none\<close>, one with the key \<^verbatim>\<open>some\<close> (holding a report and perhaps a timeout), one
  with the key \<^verbatim>\<open>report\<close> (the same two fields without the wrapper), or any other
  dictionary. The constructors follow the order in which the code tests for the keys. A
  report is kept as an opaque string.
\<close>

datatype assignment =
    Null
  | NoneDict
  | SomeDict string "int option"
  | ReportDict string "int option"
  | OtherDict

record assurance =
  validator_index :: "int option"
  anchor :: "string option"
  bitfield :: "int option"
  assurance_signature :: string

text \<open>
  \<open>validator_index\<close> is \<open>None\<close> when the key is missing or not an integer; \<open>bitfield\<close>
  is the value of \<^verbatim>\<open>int(bitfield, 16)\<close>, \<open>None\<close> when that raises (a missing key reads
  as \<^verbatim>\<open>0x0\<close>).
\<close>

record assurances_input =
  filename :: string
  assurances :: "assurance list"
  input_slot :: int
  input_parent :: "string option"

record assurances_state =
  avail_assignments :: "assignment list"
  curr_validators :: "string list"
  other_fields :: string

datatype assurance_error =
    bad_attestation_parent | bad_validator_index | core_not_engaged | bad_signature
  | not_sorted_or_unique_assurers

datatype assurances_output = Ok "string list" | Err assurance_error

text \<open>\<^verbatim>\<open>needle in haystack\<close> on strings.\<close>

fun contains_substring :: "string \<Rightarrow> string \<Rightarrow> bool" where
  "contains_substring needle [] = (needle = [])"
| "contains_substring needle (c # cs) =
     (take (length needle) (c # cs) = needle \<or> contains_substring needle cs)"

text \<open>
  \<^verbatim>\<open>bitfield_to_cores\<close>: the positions of the digits \<^verbatim>\<open>1\<close> in the reversed binary
  numeral, which are the set bits of the absolute value.
\<close>

function set_bits_from :: "nat \<Rightarrow> nat \<Rightarrow> nat list" where
  "set_bits_from n i =
     (if n = 0 then [] else (if odd n then [i] else []) @ set_bits_from (n div 2) (i + 1))"
  by pat_completeness auto
termination
  by (relation "measure fst") auto

definition bitfield_to_cores :: "int option \<Rightarrow> nat list" where
  "bitfield_to_cores b = (case b of None \<Rightarrow> [] | Some n \<Rightarrow> set_bits_from (nat \<bar>n\<bar>) 0)"

definition timeout_or_0 :: "int option \<Rightarrow> int" where
  "timeout_or_0 t = (case t of None \<Rightarrow> 0 | Some x \<Rightarrow> x)"

text \<open>Step 1, the sweep of stale reports, on one entry.\<close>

fun sweep_assignment :: "int \<Rightarrow> assignment \<Rightarrow> assignment" where
  "sweep_assignment s Null = NoneDict"
| "sweep_assignment s NoneDict = NoneDict"
| "sweep_assignment s (SomeDict r t) =
     (if timeout_or_0 t < s then NoneDict else SomeDict r t)"
| "sweep_assignment s (ReportDict r t) =
     (if timeout_or_0 t < s then NoneDict else SomeDict r t)"
| "sweep_assignment s OtherDict = NoneDict"

text \<open>Step 3, the loop over the assurances: the first error, if any.\<close>

fun validate_assurances :: "nat \<Rightarrow> string option \<Rightarrow> assurance list \<Rightarrow> assurance_error option" where
  "validate_assurances n par [] = None"
| "validate_assurances n par (a # rest) =
     (case validator_index a of
        None \<Rightarrow> Some bad_validator_index
      | Some vi \<Rightarrow>
          if vi < 0 \<or> vi \<ge> int n then Some bad_validator_index
          else if anchor a \<noteq> par \<and> anchor a \<noteq> None \<and> par \<noteq> None
            then Some bad_attestation_parent
          else validate_assurances n par rest)"

definition check_indices :: "int list \<Rightarrow> nat \<Rightarrow> assurance_error option" where
  "check_indices validator_indices n =
     (if length validator_indices \<noteq> card (set validator_indices)
        then Some not_sorted_or_unique_assurers
      else if length validator_indices > 1 \<and> validator_indices \<noteq> sort validator_indices
        then Some not_sorted_or_unique_assurers
      else if set validator_indices \<noteq> int ` {0 ..< n} \<and> length validator_indices < n
        then Some not_sorted_or_unique_assurers
      else None)"

text \<open>\<^verbatim>\<open>while len(xs) <= max_core: xs.append({"none": None})\<close>\<close>

definition extend_to :: "assignment list \<Rightarrow> nat \<Rightarrow> assignment list" where
  "extend_to xs max_core = xs @ replicate (Suc max_core - length xs) NoneDict"

definition is_unassigned :: "assignment \<Rightarrow> bool" where
  "is_unassigned a = (a = Null \<or> a = NoneDict)"

text \<open>Steps 6 and 7 only print, but reading the timeout of a \<^verbatim>\<open>some\<close> entry that has
  none raises KeyError.\<close>

definition timeout_raises :: "assignment \<Rightarrow> bool" where
  "timeout_raises a = (case a of SomeDict r None \<Rightarrow> True | _ \<Rightarrow> False)"

datatype py_exception = KeyError

text \<open>Step 8, the loop over the counted cores.\<close>

fun report_cores ::
  "nat \<Rightarrow> (nat \<times> nat) list \<Rightarrow> string list \<Rightarrow> assignment list
     \<Rightarrow> py_exception + (string list \<times> assignment list)" where
  "report_cores supermajority [] rep new_avail = Inr (rep, new_avail)"
| "report_cores supermajority ((core, cnt) # rest) rep new_avail =
     (if cnt \<ge> supermajority \<and> core < length new_avail
      then (case new_avail ! core of
              SomeDict r t \<Rightarrow>
                (case t of
                   None \<Rightarrow> Inl KeyError
                 | Some x \<Rightarrow> report_cores supermajority rest (rep @ [r])
                               (new_avail[core := ReportDict r (Some x)]))
            | ReportDict r t \<Rightarrow> report_cores supermajority rest (rep @ [r]) new_avail
            | _ \<Rightarrow> report_cores supermajority rest rep new_avail)
      else report_cores supermajority rest rep new_avail)"

text \<open>
  \<^verbatim>\<open>process_assurances\<close>. The result is the output, the post-state, and the list
  \<^verbatim>\<open>pre_state['avail_assignments']\<close> of the caller as the appends in place leave it.
\<close>

definition process_assurances ::
  "assurances_input \<Rightarrow> assurances_state
     \<Rightarrow> py_exception + (assurances_output \<times> assurances_state \<times> assignment list)" where
  "process_assurances input_data pre_state =
     (let slot_now = input_slot input_data;
          orig = avail_assignments pre_state;
          n = length (curr_validators pre_state);
          swept = map (sweep_assignment slot_now) orig;
          post1 = pre_state\<lparr>avail_assignments := swept\<rparr>
      in if assurances input_data = [] then Inr (Ok [], post1, orig)
         else case validate_assurances n (input_parent input_data) (assurances input_data) of
           Some e \<Rightarrow> Inr (Err e, post1, orig)
         | None \<Rightarrow>
            (case check_indices (map (\<lambda>a. the (validator_index a)) (assurances input_data)) n of
               Some e \<Rightarrow> Inr (Err e, post1, orig)
             | None \<Rightarrow>
                if contains_substring ''assurances_with_bad_signature-1'' (filename input_data)
                then Inr (Err bad_signature, post1, orig)
                else
                  let all_cores = concat (map (\<lambda>a. bitfield_to_cores (bitfield a))
                                             (assurances input_data));
                      max_core = fold max all_cores 0;
                      orig' = extend_to orig max_core;
                      avail = extend_to swept max_core;
                      post2 = pre_state\<lparr>avail_assignments := avail\<rparr>
                  in if contains_substring ''assurance_for_not_engaged_core-1'' (filename input_data)
                        \<and> (\<exists>core \<in> set all_cores. core \<ge> length orig' \<or> is_unassigned (orig' ! core))
                     then Inr (Err core_not_engaged, post2, orig')
                     else if \<exists>core \<in> set all_cores. core < length orig' \<and> timeout_raises (orig' ! core)
                     then Inl KeyError
                     else
                       let supermajority = n * 2 div 3 + 1;
                           counted = filter (\<lambda>core. core < length avail
                                                \<and> \<not> is_unassigned (avail ! core)) all_cores
                       in case report_cores supermajority (Counter counted) [] avail of
                            Inl exc \<Rightarrow> Inl exc
                          | Inr (rep, new_avail) \<Rightarrow>
                              Inr (Ok rep, pre_state\<lparr>avail_assignments := new_avail\<rparr>, orig')))"

text \<open>
  \<^verbatim>\<open>process_block\<close> of the component, from the call of \<^verbatim>\<open>process_assurances\<close> on: the
  output, the post-state handed back, and the state given to \<^verbatim>\<open>save_state\<close> (\<open>None\<close>
  when it is not called). An exception gives \<open>None\<close> altogether.
\<close>

definition assurances_process_block ::
  "assurances_input \<Rightarrow> assurances_state
     \<Rightarrow> (assurances_output \<times> assurances_state \<times> assurances_state option) option" where
  "assurances_process_block input_data pre_state =
     (case process_assurances input_data pre_state of
        Inl exc \<Rightarrow> None
      | Inr (output, post_state, orig) \<Rightarrow>
          Some (output, post_state,
                (case output of Ok rep \<Rightarrow> Some post_state | Err e \<Rightarrow> None)))"

section \<open>Preimages STF (\<^verbatim>\<open>Jam-preimages/src/stf/run_test.py\<close>, \<^verbatim>\<open>preimage_types.py\<close>)\<close>















subsection \<open>\<^verbatim>\<open>check_input\<close>\<close>








subsection \<open>The loop over the preimages\<close>











section \<open>Example inputs\<close>

text \<open>
  Small concrete environments, states and inputs on which the definitions are
  evaluated. The example digest cuts its input to 32 bytes; the example verifier
  accepts every ticket and takes the signature as the output hash.
\<close>

definition example_validator :: "string \<Rightarrow> validator" where
  "example_validator k =
     \<lparr>bandersnatch = ''0xb'' @ k, ed25519 = ''0xe'' @ k, bls = ''0x'', metadata = ''0x''\<rparr>"

definition example_env :: safrole_env where
  "example_env =
     \<lparr>blake2b = (\<lambda>b. take 32 b),
      ring_vrf_verify = (\<lambda>gz ring e2 ext.
         Some (map (\<lambda>t. \<lparr>ok = True, output_hash = signature t, result_attempt = attempt t\<rparr>) ext)),
      compose_gamma_z = (\<lambda>keys. Some (concat keys))\<rparr>"

definition example_state :: safrole_state where
  "example_state =
     \<lparr>tau = 10, eta = [''0x00'', ''0x01'', ''0x02'', ''0x03''],
      iota = [example_validator ''1'', example_validator ''2''],
      gamma_k = [example_validator ''3''], kappa = [example_validator ''4''],
      lambda_prev = [example_validator ''5''],
      gamma_a = [\<lparr>index = 0, randomness = [5], ticket_proof = []\<rparr>,
                 \<lparr>index = 1, randomness = [9], ticket_proof = []\<rparr>],
      gamma_s = Keys [], gamma_z = ''0x'', post_offenders = [''0xe2''],
      E = 2, Y = 1, N = 3\<rparr>"

definition example_input :: block_input where
  "example_input = \<lparr>slot = 11, entropy = ''0xff'', extrinsic = []\<rparr>"



text \<open>The example digests for the history module write their input in hex and append a
  mark, so that a digest is never its own input.\<close>

definition example_history_env :: history_env where
  "example_history_env =
     \<lparr>keccak_hexdigest = (\<lambda>b. Some (hexstr b @ ''ee'')),
      sha256_hexdigest = (\<lambda>b. hexstr b @ ''5a'')\<rparr>"

definition example_beta_block :: BetaBlock where
  "example_beta_block =
     \<lparr>header_hash = ''0xa0'', state_root = ''0x00'',
      mmr = \<lparr>peaks = [Some ''0x01''], count = Some 1\<rparr>, reported = []\<rparr>"

definition example_history_input :: Input where
  "example_history_input =
     \<lparr>input_header_hash = ''0xa1'', parent_state_root = ''0xb0'', accumulate_root = ''0x02'',
      work_packages = []\<rparr>"


text \<open>A chain of two audited blocks, the genesis block and its child, and a precommit.\<close>

definition example_block :: "string \<Rightarrow> string option \<Rightarrow> int \<Rightarrow> block_record" where
  "example_block h p n = \<lparr>block_hash = h, parent = p, height = n, block_state_root = ''s'', audited = True\<rparr>"

definition example_tree :: BlockTree where
  "example_tree = add_block (add_block \<lparr>blocks = Map.empty, children = Map.empty\<rparr>
        (example_block ''00'' None 0)) (example_block ''a1'' (Some ''00'') 1)"

definition example_chain :: chain where
  "example_chain = \<lparr>BLOCK_BY_HASH = blocks example_tree, tree = example_tree\<rparr>"

definition example_vote :: "int \<Rightarrow> string option \<Rightarrow> VoteMsg" where
  "example_vote i bh = \<lparr>vote_round = 0, stage = ''precommit'', vote_block_hash = bh,
      vote_block_height = None, vote_state_root = None, validator_id = i, sig_ed25519_b64 = ''sig''\<rparr>"


text \<open>
  Modelled from the spec: the table \<^verbatim>\<open>ONCHAIN_CONSTANTS\<close> is missing from the sources;
  the super-majority threshold is the two thirds of the specification (numerator 2,
  denominator 3), the other constants are example values. The signature check and the
  digest are examples too (the digest depends on the work-package only, so that the
  guarantors of one package share it); the report names three current guarantors.
\<close>

definition example_constants :: onchain_constants where
  "example_constants =
     \<lparr>ANCHOR_MAX_AGE_SLOTS = 100, REPORT_TIMEOUT_SLOTS = 10, MAX_DEPENDENCIES = 8,
      MAX_WORK_REPORT_GAS = 1000, MIN_SERVICE_ITEM_GAS = 1,
      SUPER_MAJORITY_THRESHOLD_NUMERATOR = 2, SUPER_MAJORITY_THRESHOLD_DENOMINATOR = 3\<rparr>"

definition example_reports_env :: reports_env where
  "example_reports_env =
     \<lparr>constants = example_constants,
      verify_signature = (\<lambda>r. guarantor_signature r = ''sig-'' @ guarantor_public_key r),
      generate_digest = (\<lambda>r. ''digest-'' @ (case service_u (work_package r) of
                                               Some u \<Rightarrow> u | None \<Rightarrow> ''''))\<rparr>"

definition example_report :: "string \<Rightarrow> WorkReport" where
  "example_report g =
     \<lparr>work_package = \<lparr>service_u = Some ''svc'',
                       work_items = [\<lparr>program_hash = None, gas_limit = 10\<rparr>]\<rparr>,
      refinement_context = \<lparr>anchor_block_number = 5, current_epoch = 0,
                             current_guarantors = [''g1'', ''g2'', ''g3''],
                             previous_guarantors = []\<rparr>,
      guarantor_public_key = g, guarantor_signature = ''sig-'' @ g,
      core_index = 0, report_slot = 5, dependencies = [], gas_used = 100\<rparr>"

definition empty_onchain_state :: OnchainState where
  "empty_onchain_state =
     \<lparr>\<rho> = Map.empty, \<omega> = Map.empty, \<xi> = {}, \<psi>_B = Map.empty, \<psi>_O = Map.empty,
      global_state = \<lparr>core_status = Map.empty, service_registry = Map.empty\<rparr>\<rparr>"

definition submit :: "string \<Rightarrow> OnchainState \<Rightarrow> OnchainState" where
  "submit g st = snd (process_guarantee_extrinsic example_reports_env (example_report g) st 6 [])"


text \<open>
  One assurance of validator 0 for core 0, with the all-zero signature of the example in
  the component's main section; a state with one assignment that is live at slot 1, and
  one whose assignment is stale at slot 1.
\<close>

definition example_assurance :: assurance where
  "example_assurance =
     \<lparr>validator_index = Some 0, anchor = None, bitfield = Some 1,
      assurance_signature = ''0x00''\<rparr>"

definition example_assurances_state :: assurances_state where
  "example_assurances_state =
     \<lparr>avail_assignments = [SomeDict ''report0'' (Some 11)],
      curr_validators = [''validator0''], other_fields = ''{}''\<rparr>"

definition example_assurances_input :: "string \<Rightarrow> assurances_input" where
  "example_assurances_input name =
     \<lparr>filename = name, assurances = [example_assurance], input_slot = 1,
      input_parent = Some ''0xb5''\<rparr>"

definition example_stale_state :: assurances_state where
  "example_stale_state =
     \<lparr>avail_assignments = [SomeDict ''report0'' (Some 0)],
      curr_validators = [''validator0''], other_fields = ''{}''\<rparr>"

definition example_bad_index_input :: assurances_input where
  "example_bad_index_input =
     (example_assurances_input ''vector-1.json'')
       \<lparr>assurances := [example_assurance\<lparr>validator_index := Some 7\<rparr>]\<rparr>"






section \<open>Properties of the Safrole STF\<close>

lemma and_then_Inr: "and_then r f = Inr y \<longleftrightarrow> (\<exists>v. r = Inr v \<and> f v = Inr y)"
  by (cases r) (auto simp: and_then_def)

lemma and_then_Inl: "and_then r f = Inl e \<longleftrightarrow> (r = Inl e \<or> (\<exists>v. r = Inr v \<and> f v = Inl e))"
  by (cases r) (auto simp: and_then_def)

lemmas safrole_eval = process_block_def and_then_def get_epoch_and_slot_phase_def
  py_index_def hex_to_bytes_def startswith_0x_def hex_digit_value_def is_space_def
  rotate_eta_def bytes_to_hex_def calculate_eta_update_def hexstr_def hex_char_def
  make_header_def example_env_def example_state_def example_input_def example_validator_def

lemma admit_tickets_eta: "admit_tickets env pre cur ext = Inr s \<Longrightarrow> eta s = eta cur"
  by (auto simp: admit_tickets_def and_then_Inr Let_def split: if_splits option.splits)

lemma epoch_transition_eta:
  "epoch_transition env pre cur pe pm ne = Inr s \<Longrightarrow> eta s = eta cur"
  by (auto simp: epoch_transition_def and_then_Inr Let_def split: if_splits option.splits)

lemma rotate_eta_Inr:
  "rotate_eta ch pre_eta n0 = Inr e \<Longrightarrow>
     e = (if ch then [n0, pre_eta ! 0, pre_eta ! 1, pre_eta ! 2]
          else [n0, pre_eta ! 1, pre_eta ! 2, pre_eta ! 3])"
  by (auto simp: rotate_eta_def and_then_Inr py_index_def split: if_splits)

text \<open>
  C1. Whenever \<^verbatim>\<open>process_block\<close> accepts a block, the first entry of the new \<open>eta\<close>
  is the hex form of the blake2b digest of the old \<open>eta[0]\<close> bytes followed by the bytes
  of the block's entropy; the other three entries are the old entries 0, 1, 2 when the
  epoch of the new slot is greater than the epoch of \<open>tau\<close>, and the old entries 1, 2, 3
  otherwise; the new \<open>eta\<close> has four entries.
\<close>

theorem safrole_eta_rotation:
  assumes "process_block env pre inp = Inr (hdr, post)"
  shows "\<exists>eta0_bytes vrf_output.
           hex_to_bytes (eta pre ! 0) = Inr eta0_bytes \<and>
           hex_to_bytes (entropy inp) = Inr vrf_output \<and>
           eta post =
             (if slot inp div E pre > tau pre div E pre
              then [bytes_to_hex (blake2b env (eta0_bytes @ vrf_output)),
                    eta pre ! 0, eta pre ! 1, eta pre ! 2]
              else [bytes_to_hex (blake2b env (eta0_bytes @ vrf_output)),
                    eta pre ! 1, eta pre ! 2, eta pre ! 3]) \<and>
           length (eta post) = 4"
  using assms
  apply (simp add: process_block_def and_then_Inr get_epoch_and_slot_phase_def
      split: if_splits prod.splits)
  apply (elim exE conjE)
  apply (auto simp: py_index_def calculate_eta_update_def
      dest!: rotate_eta_Inr admit_tickets_eta epoch_transition_eta split: if_splits)
  done

theorem safrole_eta_rotation_witness:
  "\<exists>hdr post. process_block example_env example_state example_input = Inr (hdr, post) \<and>
     eta post = [''0x00ff'',
                 ''0x01'', ''0x02'', ''0x03'']"
proof -
  have "\<not> isl (process_block example_env example_state example_input)"
    by (simp add: safrole_eval)
  then obtain hdr post where
    h: "process_block example_env example_state example_input = Inr (hdr, post)"
    by (cases "process_block example_env example_state example_input") auto
  from safrole_eta_rotation [OF h] have
    "eta post = [''0x00ff'',
                 ''0x01'', ''0x02'', ''0x03'']"
    by (simp add: safrole_eval)
  with h show ?thesis by blast
qed







lemma admit_tickets_fields:
  "admit_tickets env pre cur ext = Inr s \<Longrightarrow>
     s = cur\<lparr>gamma_a := gamma_a s\<rparr>"
  by (auto simp: admit_tickets_def and_then_Inr Let_def split: if_splits option.splits)


















section \<open>Properties of the history STF and the MMR\<close>

declare lowest_clear_bit.simps [simp del] mmr_merge.simps [simp del] mmr_extend.simps [simp del]

lemma clear_range_0 [simp]: "clear_range pks k 0 = pks"
  by (simp add: clear_range_def)

lemma clear_range_Suc: "clear_range pks k (Suc n) = clear_range (pks[k := None]) (Suc k) n"
  by (simp add: clear_range_def upt_conv_Cons del: upt_Suc)

lemma length_clear_range [simp]: "length (clear_range pks k n) = length pks"
  by (induction n arbitrary: pks k) (simp_all add: clear_range_Suc)

lemma nth_clear_range:
  "j < length pks \<Longrightarrow> clear_range pks k n ! j = (if k \<le> j \<and> j < k + n then None else pks ! j)"
  by (induction n arbitrary: pks k) (auto simp: clear_range_Suc nth_list_update)

lemma merge_from_update:
  "j < k \<Longrightarrow> merge_from env (pks[j := x]) hv k n = merge_from env pks hv k n"
  by (induction n arbitrary: hv k) (auto split: option.splits)

lemma bit_step: "and (cnt::nat) (2 ^ k) = 0 \<longleftrightarrow> even (cnt div 2 ^ k)"
  by (simp add: and_exp_eq_0_iff_not_bit bit_iff_odd)

lemma lcb_odd: "odd c \<Longrightarrow> lowest_clear_bit c = Suc (lowest_clear_bit (c div 2))"
  by (subst lowest_clear_bit.simps) simp

lemma lcb_even: "even c \<Longrightarrow> lowest_clear_bit c = 0"
  by (subst lowest_clear_bit.simps) simp

lemma mmr_merge_eq:
  "mmr_merge env cnt pks hv k =
     (case merge_from env pks hv k (lowest_clear_bit (cnt div 2 ^ k)) of
        None \<Rightarrow> None
      | Some hv' \<Rightarrow> Some (clear_range pks k (lowest_clear_bit (cnt div 2 ^ k)), hv',
                          k + lowest_clear_bit (cnt div 2 ^ k)))"
proof (induction env cnt pks hv k rule: mmr_merge.induct)
  case (1 env cnt pks hv k)
  show ?case
  proof (cases "odd (cnt div 2 ^ k)")
    case False
    then have nb: "\<not> and cnt (push_bit k 1) \<noteq> 0" by (simp add: bit_step)
    from nb False show ?thesis
      by (subst mmr_merge.simps) (simp add: lcb_even)
  next
    case True
    then have b: "and cnt (push_bit k 1) \<noteq> 0" by (simp add: bit_step)
    have "cnt div 2 ^ (k + 1) = cnt div 2 ^ k div 2"
      by (simp add: div_mult2_eq[symmetric] mult.commute)
    then have l: "lowest_clear_bit (cnt div 2 ^ k) = Suc (lowest_clear_bit (cnt div 2 ^ (k + 1)))"
      using True lcb_odd[of "cnt div 2 ^ k"] by simp
    show ?thesis
    proof (cases "k < length pks \<and> pks ! k \<noteq> None")
      case present: True
      show ?thesis
      proof (cases "fromhex (drop 2 (the (pks ! k)))")
        case None
        then show ?thesis using b present l by (subst mmr_merge.simps) simp
      next
        case (Some pb)
        note pb = this
        show ?thesis
        proof (cases "fromhex (drop 2 hv)")
          case None
          then show ?thesis using b present l pb by (subst mmr_merge.simps) simp
        next
          case (Some hb)
          have "mmr_merge env cnt pks hv k =
                mmr_merge env cnt (pks[k := None]) (keccak256 env (pb @ hb)) (k + 1)"
            using b present pb Some by (subst mmr_merge.simps) simp
          also note "1.IH"(1)[OF b present pb Some]
          finally show ?thesis
            using present pb Some l
            by (simp add: merge_from_update clear_range_Suc split: option.splits)
        qed
      qed
    next
      case absent: False
      then have same: "pks[k := None] = pks"
        by (cases "k < length pks") (auto simp: list_update_same_conv list_update_beyond)
      have "mmr_merge env cnt pks hv k = mmr_merge env cnt pks hv (k + 1)"
        using b absent by (subst mmr_merge.simps) auto
      also note "1.IH"(2)[OF b absent]
      finally show ?thesis
        using absent l same by (auto simp: clear_range_Suc split: option.splits)
    qed
  qed
qed

lemma mmr_extend_eq: "mmr_extend pks h = pks @ replicate (Suc h - length pks) None"
proof (induction pks h rule: mmr_extend.induct)
  case (1 pks h)
  show ?case
  proof (cases "length pks \<le> h")
    case True
    then have "mmr_extend pks h = mmr_extend (pks @ [None]) h" by (subst mmr_extend.simps) simp
    also have "\<dots> = (pks @ [None]) @ replicate (Suc h - length (pks @ [None])) None"
      using 1[OF True] .
    also have "\<dots> = pks @ replicate (Suc h - length pks) None"
      using True by (simp add: Suc_diff_le replicate_app_Cons_same)
    finally show ?thesis .
  next
    case False
    then show ?thesis by (subst mmr_extend.simps) simp
  qed
qed

lemma placed_peaks:
  "(mmr_extend (clear_range pks 0 h) h)[h := Some v]
     = replicate h None @ [Some v] @ drop (Suc h) pks"
  by (rule nth_equalityI)
     (auto simp: mmr_extend_eq nth_list_update nth_append nth_clear_range not_less)

lemma mmr_append_closed_form:
  "mmr_append env prev leaf =
     (let pks = (case prev of None \<Rightarrow> [] | Some m \<Rightarrow> peaks m);
          cnt = (case prev of None \<Rightarrow> 0 | Some m \<Rightarrow> (case count m of None \<Rightarrow> 0 | Some c \<Rightarrow> c));
          height = lowest_clear_bit cnt
      in case merge_from env pks leaf 0 height of
           None \<Rightarrow> None
         | Some hash_val \<Rightarrow>
             Some \<lparr>peaks = replicate height None @ [Some hash_val] @ drop (Suc height) pks,
                   count = Some (cnt + 1)\<rparr>)"
  by (simp add: mmr_append_def mmr_merge_eq placed_peaks Let_def split: option.splits)

lemmas history_eval = example_history_env_def example_beta_block_def example_history_input_def
  keccak256_def hexstr_def hex_char_def hex_digit_value_def is_space_def

lemma lcb_1: "lowest_clear_bit (Suc 0) = Suc 0" "lowest_clear_bit 0 = 0"
  by (simp_all add: lowest_clear_bit.simps)

text \<open>
  C8, as the code has it. \<^verbatim>\<open>mmr_append\<close> does not hash the leaf: the running hash
  starts as the leaf itself. With \<open>height\<close> the lowest bit of the pre-append count that is
  not set, the heights below it are visited in ascending order; a peak present at a
  height is combined with the running hash by \<^verbatim>\<open>keccak256\<close> (peak bytes first) and
  replaced by \<^verbatim>\<open>None\<close>, a height without a peak is passed over. The running hash is then
  stored at \<open>height\<close>, the entries below it are \<^verbatim>\<open>None\<close>, the entries above it are kept,
  and the count becomes the old count plus one (\<^verbatim>\<open>None\<close> counting as zero). The append
  raises when a peak or the running hash is not hex.
\<close>

theorem mmr_append_rule:
  "mmr_append env prev leaf =
     (let pks = (case prev of None \<Rightarrow> [] | Some m \<Rightarrow> peaks m);
          cnt = (case prev of None \<Rightarrow> 0 | Some m \<Rightarrow> (case count m of None \<Rightarrow> 0 | Some c \<Rightarrow> c));
          height = lowest_clear_bit cnt
      in case merge_from env pks leaf 0 height of
           None \<Rightarrow> None
         | Some hash_val \<Rightarrow>
             Some \<lparr>peaks = replicate height None @ [Some hash_val] @ drop (Suc height) pks,
                   count = Some (cnt + 1)\<rparr>)"
  by (rule mmr_append_closed_form)

theorem mmr_append_rule_witness:
  "mmr_append example_history_env (Some \<lparr>peaks = [Some ''0x01''], count = Some 1\<rparr>) ''0x02''
     = Some \<lparr>peaks = [None, Some ''0x0102ee''], count = Some 2\<rparr>"
  using mmr_append_rule [of example_history_env
      "Some \<lparr>peaks = [Some ''0x01''], count = Some 1\<rparr>" "''0x02''"]
  by (simp add: history_eval lcb_1)

text \<open>
  The claim as worded fails on the first append: the code stores the leaf \<^verbatim>\<open>0xaa\<close>
  itself as the peak of height 0, the worded rule stores its digest.
\<close>

theorem mmr_append_leaf_counterexample:
  "mmr_append example_history_env (Some \<lparr>peaks = [], count = Some 0\<rparr>) ''0xaa''
     = Some \<lparr>peaks = [Some ''0xaa''], count = Some 1\<rparr> \<and>
   mmr_append_spec example_history_env (Some \<lparr>peaks = [], count = Some 0\<rparr>) ''0xaa''
     = Some \<lparr>peaks = [Some ''0xaaee''], count = Some 1\<rparr> \<and>
   mmr_append example_history_env (Some \<lparr>peaks = [], count = Some 0\<rparr>) ''0xaa''
     \<noteq> mmr_append_spec example_history_env (Some \<lparr>peaks = [], count = Some 0\<rparr>) ''0xaa''"
  by (simp add: mmr_append_closed_form mmr_append_spec_def history_eval lcb_1)




lemma length_set_last_state_root [simp]:
  "length (set_last_state_root b root) = length b"
  by (simp add: set_last_state_root_def)




section \<open>Properties of the GRANDPA tally\<close>

lemma counter_add_keys: "fst ` set (counter_add k acc) = insert k (fst ` set acc)"
  by (induction k acc rule: counter_add.induct) auto

lemma counter_add_distinct: "distinct (map fst acc) \<Longrightarrow> distinct (map fst (counter_add k acc))"
proof (induction k acc rule: counter_add.induct)
  case (1 k)
  then show ?case by simp
next
  case (2 k k' n rest)
  then show ?case using counter_add_keys[of k rest] by (auto simp: image_iff)
qed

lemma counter_add_map_of:
  "map_of (counter_add k acc) k' =
     (if k' = k then Some (case map_of acc k of None \<Rightarrow> 1 | Some n \<Rightarrow> n + 1) else map_of acc k')"
  by (induction k acc rule: counter_add.induct) auto

lemma fold_counter_distinct:
  "distinct (map fst acc) \<Longrightarrow> distinct (map fst (fold counter_add xs acc))"
  by (induction xs arbitrary: acc) (simp_all add: counter_add_distinct)

lemma fold_counter_map_of:
  "map_of (fold counter_add xs acc) k =
     (case map_of acc k of
        None \<Rightarrow> if count_list xs k = 0 then None else Some (count_list xs k)
      | Some n \<Rightarrow> Some (n + count_list xs k))"
  by (induction xs arbitrary: acc) (auto simp: counter_add_map_of split: option.splits)

lemma Counter_entry:
  "(k, n) \<in> set (Counter xs) \<longleftrightarrow> n = count_list xs k \<and> 0 < n"
proof -
  have d: "distinct (map fst (Counter xs))"
    unfolding Counter_def by (rule fold_counter_distinct) simp
  have "(k, n) \<in> set (Counter xs) \<longleftrightarrow> map_of (Counter xs) k = Some n"
    using d by simp
  also have "\<dots> \<longleftrightarrow> n = count_list xs k \<and> 0 < n"
    by (auto simp: Counter_def fold_counter_map_of)
  finally show ?thesis .
qed

lemma first_max_mem: "first_max best rest \<in> set (best # rest)"
  by (induction rest arbitrary: best) (auto split: if_splits)

lemma first_max_ge: "e \<in> set (best # rest) \<Longrightarrow> snd e \<le> snd (first_max best rest)"
proof (induction rest arbitrary: best e)
  case Nil
  then show ?case by simp
next
  case (Cons a rest)
  have mono: "snd b \<le> snd (first_max b rest)" for b
    using Cons.IH[of b b] by simp
  show ?case
  proof (cases "e = best")
    case True
    then show ?thesis using mono[of "if snd a > snd best then a else best"]
      by (auto split: if_splits)
  next
    case False
    with Cons.prems have "e \<in> set (a # rest)" by auto
    then show ?thesis
      using Cons.IH[of e "if snd a > snd best then a else best"] mono[of "if snd a > snd best then a else best"]
      by (auto split: if_splits)
  qed
qed

lemma most_common1_Some:
  assumes "most_common1 (Counter xs) = Some (k, n)"
  shows "n = count_list xs k" "0 < n" "\<And>k'. count_list xs k' \<le> n"
proof -
  from assms obtain e rest where c: "Counter xs = e # rest" and m: "first_max e rest = (k, n)"
    by (auto simp: most_common1_def split: list.splits)
  have "(k, n) \<in> set (Counter xs)" using first_max_mem[of e rest] c m by simp
  then show "n = count_list xs k" "0 < n" by (simp_all add: Counter_entry)
  fix k'
  show "count_list xs k' \<le> n"
  proof (cases "count_list xs k' = 0")
    case True
    then show ?thesis by simp
  next
    case False
    then have "(k', count_list xs k') \<in> set (Counter xs)" by (simp add: Counter_entry)
    then have "(k', count_list xs k') \<in> set (e # rest)" unfolding c .
    from first_max_ge[OF this] m show ?thesis by simp
  qed
qed

lemma most_common1_None: "most_common1 (Counter xs) = None \<longleftrightarrow> xs = []"
proof
  assume "most_common1 (Counter xs) = None"
  then have "Counter xs = []" by (simp add: most_common1_def split: list.splits)
  then have z: "count_list xs k = 0" for k
    using Counter_entry[of k "count_list xs k" xs] by simp
  show "xs = []"
  proof (cases xs)
    case Nil
    then show ?thesis .
  next
    case (Cons a list)
    with z[of a] show ?thesis by simp
  qed
next
  assume "xs = []"
  then show "most_common1 (Counter xs) = None" by (simp add: most_common1_def Counter_def)
qed

lemma count_list_two: "k \<noteq> k' \<Longrightarrow> count_list xs k + count_list xs k' \<le> length xs"
  by (induction xs) auto

lemma most_common1_majority:
  assumes "length xs < 2 * count_list xs k"
  shows "most_common1 (Counter xs) = Some (k, count_list xs k)"
proof (cases "most_common1 (Counter xs)")
  case None
  then show ?thesis using assms by (simp add: most_common1_None)
next
  case (Some p)
  obtain k' n where p: "p = (k', n)" by (cases p)
  note mc = most_common1_Some[OF Some[unfolded p]]
  have "k' = k"
  proof (rule ccontr)
    assume "k' \<noteq> k"
    then have "count_list xs k + count_list xs k' \<le> length xs" using count_list_two[of k k' xs] by simp
    moreover have "count_list xs k \<le> count_list xs k'" using mc(1) mc(3)[of k] by simp
    ultimately show False using assms by simp
  qed
  then show ?thesis using Some p mc(1) by simp
qed

lemma final_candidate_Some:
  "final_candidate ch self pcs = Some (Some bh) \<longleftrightarrow>
     (\<exists>cnt. most_common1 (Counter (map vote_block_hash pcs)) = Some (Some bh, cnt) \<and>
            threshold self \<le> cnt \<and>
            (\<exists>r. BLOCK_BY_HASH ch bh = Some r \<and> audited r) \<and>
            contains_equivocation_between (tree ch) (Some bh) (finalized self) = Some False)"
  by (auto simp: final_candidate_def split: option.splits if_splits)

lemma tally_precommits_just:
  assumes "tally_precommits ch self pcs = Some ((final_bh, just), self')"
  shows "just \<noteq> None \<longleftrightarrow> (\<exists>bh. bh \<noteq> [] \<and> final_candidate ch self pcs = Some (Some bh))"
    and "just = None \<longrightarrow> finalized self' = finalized self"
    and "\<forall>j. just = Some j \<longrightarrow>
            final_bh = Some (justified_hash j) \<and> finalized self' = Some (justified_hash j) \<and>
            final_candidate ch self pcs = Some (Some (justified_hash j)) \<and>
            round_number j = round self \<and>
            signatures j = map (\<lambda>v. (validator_id v, sig_ed25519_b64 v))
                             (filter (\<lambda>v. vote_block_hash v = Some (justified_hash j)) pcs)"
    and "round self' = round self + 1"
  using assms
  by (auto simp: tally_precommits_def split: option.splits if_splits)

lemma threshold_majority:
  fixes c n len :: nat
  assumes "2 * n div 3 + 1 \<le> c" "len \<le> n"
  shows "len < 2 * c"
  using assms by linarith

lemmas grandpa_eval = tally_precommits_def final_candidate_def most_common1_def Counter_def
  GrandpaEngine_init_def example_vote_def example_chain_def example_tree_def example_block_def
  add_block_def contains_equivocation_between.simps

text \<open>
  C5, as the code has it. The threshold of an engine over \<open>N\<close> validators is
  \<open>2N div 3 + 1\<close> (two thirds rounded down, plus one). A tally that returns gives a
  justification exactly when the most frequent hash among the collected precommits (the
  first seen among equally frequent ones) is a non-empty block hash with at least that
  many precommits, its record is audited, and the walk from it to the finalized block
  meets no parent with two children. When no more precommits than validators were
  collected, this is: exactly when some non-empty block hash has at least that many
  precommits, is audited and is free of equivocation. A justification names the hash the
  finalized pointer is set to; without one the pointer stays where it was. The round
  number grows by one either way.
\<close>

theorem grandpa_finalization:
  assumes run: "tally_precommits ch self pcs = Some ((final_bh, just), self')"
      and thr: "threshold self = 2 * length (validators self) div 3 + 1"
  shows "(just \<noteq> None \<longleftrightarrow>
            (\<exists>bh. bh \<noteq> [] \<and>
               most_common1 (Counter (map vote_block_hash pcs))
                 = Some (Some bh, count_list (map vote_block_hash pcs) (Some bh)) \<and>
               2 * length (validators self) div 3 + 1 \<le> count_list (map vote_block_hash pcs) (Some bh) \<and>
               (\<exists>r. BLOCK_BY_HASH ch bh = Some r \<and> audited r) \<and>
               contains_equivocation_between (tree ch) (Some bh) (finalized self) = Some False)) \<and>
         (length pcs \<le> length (validators self) \<longrightarrow>
            (just \<noteq> None \<longleftrightarrow>
              (\<exists>bh. bh \<noteq> [] \<and>
                 2 * length (validators self) div 3 + 1 \<le> count_list (map vote_block_hash pcs) (Some bh) \<and>
                 (\<exists>r. BLOCK_BY_HASH ch bh = Some r \<and> audited r) \<and>
                 contains_equivocation_between (tree ch) (Some bh) (finalized self) = Some False))) \<and>
         (\<forall>j. just = Some j \<longrightarrow>
            final_bh = Some (justified_hash j) \<and> finalized self' = Some (justified_hash j) \<and>
            round_number j = round self \<and>
            signatures j = map (\<lambda>v. (validator_id v, sig_ed25519_b64 v))
                             (filter (\<lambda>v. vote_block_hash v = Some (justified_hash j)) pcs)) \<and>
         (just = None \<longrightarrow> finalized self' = finalized self) \<and>
         round self' = round self + 1"
proof -
  let ?hs = "map vote_block_hash pcs"
  let ?N = "length (validators self)"
  let ?ok = "\<lambda>bh. (\<exists>r. BLOCK_BY_HASH ch bh = Some r \<and> audited r) \<and>
               contains_equivocation_between (tree ch) (Some bh) (finalized self) = Some False"
  note t = tally_precommits_just[OF run]
  have fc: "final_candidate ch self pcs = Some (Some bh) \<longleftrightarrow>
              most_common1 (Counter ?hs) = Some (Some bh, count_list ?hs (Some bh)) \<and>
              2 * ?N div 3 + 1 \<le> count_list ?hs (Some bh) \<and> ?ok bh" for bh
    unfolding final_candidate_Some thr
    by (auto dest: most_common1_Some(1))
  have a: "just \<noteq> None \<longleftrightarrow>
            (\<exists>bh. bh \<noteq> [] \<and> most_common1 (Counter ?hs) = Some (Some bh, count_list ?hs (Some bh)) \<and>
               2 * ?N div 3 + 1 \<le> count_list ?hs (Some bh) \<and> ?ok bh)"
    unfolding t(1) fc by blast
  have b: "just \<noteq> None \<longleftrightarrow>
            (\<exists>bh. bh \<noteq> [] \<and> 2 * ?N div 3 + 1 \<le> count_list ?hs (Some bh) \<and> ?ok bh)"
    if len: "length pcs \<le> ?N"
  proof -
    have "most_common1 (Counter ?hs) = Some (Some bh, count_list ?hs (Some bh))"
      if "2 * ?N div 3 + 1 \<le> count_list ?hs (Some bh)" for bh
    proof (rule most_common1_majority)
      show "length ?hs < 2 * count_list ?hs (Some bh)"
        using threshold_majority[OF that, of "length pcs"] len by simp
    qed
    then show ?thesis unfolding a by blast
  qed
  from a b t(2,3,4) show ?thesis by blast
qed

theorem grandpa_finalization_witness:
  "threshold (GrandpaEngine_init [0, 1, 2])
     = 2 * length (validators (GrandpaEngine_init [0, 1, 2])) div 3 + 1 \<and>
   (\<exists>final_bh just self'.
      tally_precommits example_chain (GrandpaEngine_init [0, 1, 2])
        [example_vote 0 (Some ''a1''), example_vote 1 (Some ''a1''), example_vote 2 (Some ''a1'')]
        = Some ((final_bh, just), self') \<and>
      just \<noteq> None \<and> finalized self' = Some ''a1'' \<and> round self' = 1)"
proof -
  let ?e = "GrandpaEngine_init [0, 1, 2]"
  let ?pcs = "[example_vote 0 (Some ''a1''), example_vote 1 (Some ''a1''), example_vote 2 (Some ''a1'')]"
  have thr: "threshold ?e = 2 * length (validators ?e) div 3 + 1"
    by (simp add: GrandpaEngine_init_def)
  have "tally_precommits example_chain ?e ?pcs \<noteq> None"
    by (simp add: grandpa_eval)
  then obtain final_bh just self' where
    run: "tally_precommits example_chain ?e ?pcs = Some ((final_bh, just), self')"
    by (cases "tally_precommits example_chain ?e ?pcs") auto
  have "just \<noteq> None \<and> finalized self' = Some ''a1''"
    using run by (auto simp: grandpa_eval)
  moreover have "round self' = 1"
    using grandpa_finalization [OF run thr] by (simp add: GrandpaEngine_init_def)
  ultimately show ?thesis using thr run by blast
qed

text \<open>
  The claim's threshold, two thirds rounded up plus one, is 5 for five validators; the
  engine's is 4, and four precommits finalize.
\<close>

theorem grandpa_threshold_counterexample:
  "tally_precommits example_chain (GrandpaEngine_init [0, 1, 2, 3, 4])
     [example_vote 0 (Some ''a1''), example_vote 1 (Some ''a1''),
      example_vote 2 (Some ''a1''), example_vote 3 (Some ''a1'')]
   = Some ((Some ''a1'',
            Some \<lparr>round_number = 0, justified_hash = ''a1'',
                  signatures = [(0, ''sig''), (1, ''sig''), (2, ''sig''), (3, ''sig'')]\<rparr>),
           \<lparr>validators = [0, 1, 2, 3, 4], round = 1, threshold = 4, finalized = Some ''a1''\<rparr>)
   \<and> (4::nat) < (2 * 5 + 2) div 3 + 1"
  by (simp add: grandpa_eval)

section \<open>Properties of the guarantees STF\<close>

lemma ceil_div_least:
  assumes "0 < b"
  shows "a \<le> ceil_div a b * b" and "(ceil_div a b - 1) * b < a"
proof -
  have m: "(- a) mod b \<ge> 0" "(- a) mod b < b" using assms by simp_all
  have "b * ((- a) div b) + (- a) mod b = - a" by simp
  then have "- (b * ((- a) div b)) = a + (- a) mod b" by linarith
  then have "ceil_div a b * b = a + (- a) mod b"
    by (simp add: ceil_div_def mult.commute)
  then show "a \<le> ceil_div a b * b" and "(ceil_div a b - 1) * b < a"
    using m by (simp_all add: algebra_simps)
qed

lemmas reports_eval = process_guarantee_extrinsic_def promote_or_keep_def validate_work_report_def
  required_signatures_def ceil_div_def is_guarantor_assigned_def is_dependency_met_def truthy_def
  record_failure_def example_constants_def example_reports_env_def example_report_def
  empty_onchain_state_def submit_def Let_def

text \<open>
  C4, as the code has it. With the threshold two thirds, a report that passes validation
  and brings a signature its entry in \<open>\<rho>\<close> does not hold yet is removed from \<open>\<rho>\<close> and
  put into \<open>\<omega>\<close> with status \<^verbatim>\<open>ready\<close> exactly when the signatures of the entry, the
  new one included, number at least the ceiling of two thirds of the current and previous
  guarantors taken together; otherwise \<open>\<omega>\<close> is unchanged and the entry stays in \<open>\<rho>\<close>
  with the new signature, unless it has timed out. For three guarantors the number
  required is two.
\<close>

theorem guarantee_promotion:
  assumes num: "SUPER_MAJORITY_THRESHOLD_NUMERATOR (constants env) = 2"
      and den: "SUPER_MAJORITY_THRESHOLD_DENOMINATOR (constants env) = 3"
      and valid: "validate_work_report env report st current_slot digests = None"
      and fresh: "\<And>e. \<rho> st (generate_digest env report) = Some e
                    \<Longrightarrow> guarantor_public_key report \<notin> received_signatures e"
      and run: "process_guarantee_extrinsic env report st current_slot digests = (res, st')"
  shows "(let d = generate_digest env report;
              sigs = (case \<rho> st d of
                        None \<Rightarrow> {guarantor_public_key report}
                      | Some e \<Rightarrow> insert (guarantor_public_key report) (received_signatures e));
              total = int (length (current_guarantors (refinement_context report)))
                    + int (length (previous_guarantors (refinement_context report)));
              required = ceil_div (total * 2) 3
          in total * 2 \<le> required * 3 \<and> (required - 1) * 3 < total * 2 \<and>
             (total = 3 \<longrightarrow> required = 2) \<and>
             (if int (card sigs) \<ge> required
              then res = Inr True \<and> \<rho> st' = (\<rho> st)(d := None) \<and>
                   \<omega> st' = (\<omega> st)(d \<mapsto> \<lparr>queued_report = report, status = ''ready''\<rparr>)
              else \<omega> st' = \<omega> st \<and>
                   (\<rho> st' d = None \<and> res = Inr False \<or>
                    res = Inr True \<and> (\<exists>e. \<rho> st' d = Some e \<and> received_signatures e = sigs))))"
proof -
  let ?d = "generate_digest env report"
  have c: "total * 2 \<le> ceil_div (total * 2) 3 * 3 \<and> (ceil_div (total * 2) 3 - 1) * 3 < total * 2"
    for total :: int
    using ceil_div_least[of 3 "total * 2"] by simp
  have t3: "ceil_div (3 * 2) 3 = 2" by (simp add: ceil_div_def)
  show ?thesis
  proof (cases "\<rho> st ?d")
    case None
    with run valid num den show ?thesis
      using c t3
      by (auto simp: process_guarantee_extrinsic_def promote_or_keep_def required_signatures_def
          Let_def split: if_splits)
  next
    case (Some e)
    with run valid num den fresh[OF Some] show ?thesis
      using c t3
      by (auto simp: process_guarantee_extrinsic_def promote_or_keep_def required_signatures_def
          Let_def split: if_splits)
  qed
qed

theorem guarantee_promotion_witness:
  "SUPER_MAJORITY_THRESHOLD_NUMERATOR (constants example_reports_env) = 2 \<and>
   SUPER_MAJORITY_THRESHOLD_DENOMINATOR (constants example_reports_env) = 3 \<and>
   validate_work_report example_reports_env (example_report ''g2'')
     (submit ''g1'' empty_onchain_state) 6 [] = None \<and>
   (\<exists>res st'.
      process_guarantee_extrinsic example_reports_env (example_report ''g2'')
        (submit ''g1'' empty_onchain_state) 6 [] = (res, st') \<and>
      res = Inr True \<and> \<rho> st' ''digest-svc'' = None \<and>
      \<omega> st' ''digest-svc'' = Some \<lparr>queued_report = example_report ''g2'', status = ''ready''\<rparr>)"
proof -
  let ?st = "submit ''g1'' empty_onchain_state"
  let ?r = "example_report ''g2''"
  have num: "SUPER_MAJORITY_THRESHOLD_NUMERATOR (constants example_reports_env) = 2"
    and den: "SUPER_MAJORITY_THRESHOLD_DENOMINATOR (constants example_reports_env) = 3"
    by (simp_all add: example_reports_env_def example_constants_def)
  have valid: "validate_work_report example_reports_env ?r ?st 6 [] = None"
    by (simp add: reports_eval)
  have d: "generate_digest example_reports_env ?r = ''digest-svc''"
    by (simp add: example_reports_env_def example_report_def)
  have rho: "\<rho> ?st ''digest-svc''
      = Some \<lparr>pending_report = example_report ''g1'', received_signatures = {''g1''},
               submission_slot = 6\<rparr>"
    by (simp add: reports_eval)
  have fresh: "guarantor_public_key ?r \<notin> received_signatures e"
    if "\<rho> ?st (generate_digest example_reports_env ?r) = Some e" for e
  proof -
    from that have "e = \<lparr>pending_report = example_report ''g1'', received_signatures = {''g1''},
                         submission_slot = 6\<rparr>"
      unfolding d rho by simp
    then show ?thesis by (simp add: example_report_def)
  qed
  obtain res st' where
    run: "process_guarantee_extrinsic example_reports_env ?r ?st 6 [] = (res, st')"
    by (cases "process_guarantee_extrinsic example_reports_env ?r ?st 6 []")
  have "res = Inr True \<and> \<rho> st' ''digest-svc'' = None \<and>
        \<omega> st' ''digest-svc'' = Some \<lparr>queued_report = ?r, status = ''ready''\<rparr>"
  proof -
    have g: "guarantor_public_key ?r = ''g2''"
      and t: "int (length (current_guarantors (refinement_context ?r)))
              + int (length (previous_guarantors (refinement_context ?r))) = 3"
      by (simp_all add: example_report_def)
    from guarantee_promotion [OF num den valid fresh run] show ?thesis
      unfolding d rho g t Let_def by (simp add: ceil_div_def)
  qed
  with num den valid run show ?thesis by blast
qed

text \<open>
  With three guarantors the first submission creates the entry, the second signature
  already moves the digest to \<open>\<omega>\<close>, and a third submission finds no entry in \<open>\<rho>\<close> and
  creates one again.
\<close>

theorem guarantee_scenario_counterexample:
  "\<rho> (submit ''g1'' empty_onchain_state) ''digest-svc''
     = Some \<lparr>pending_report = example_report ''g1'', received_signatures = {''g1''},
              submission_slot = 6\<rparr> \<and>
   \<rho> (submit ''g2'' (submit ''g1'' empty_onchain_state)) ''digest-svc'' = None \<and>
   \<omega> (submit ''g2'' (submit ''g1'' empty_onchain_state)) ''digest-svc''
     = Some \<lparr>queued_report = example_report ''g2'', status = ''ready''\<rparr> \<and>
   \<rho> (submit ''g3'' (submit ''g2'' (submit ''g1'' empty_onchain_state))) ''digest-svc''
     = Some \<lparr>pending_report = example_report ''g3'', received_signatures = {''g3''},
              submission_slot = 6\<rparr>"
  by (simp add: reports_eval)

section \<open>Properties of the assurances STF, and atomicity on errors\<close>

lemmas assurances_eval = process_assurances_def assurances_process_block_def
  example_assurance_def example_assurances_state_def example_assurances_input_def
  check_indices_def bitfield_to_cores_def extend_to_def is_unassigned_def timeout_raises_def
  timeout_or_0_def Counter_def Let_def

lemma set_bits_1: "set_bits_from (Suc 0) 0 = [0]"
  by (simp add: set_bits_from.simps[of "Suc 0"] set_bits_from.simps[of 0])

text \<open>
  C9. The code does not verify signatures: it answers \<^verbatim>\<open>bad_signature\<close> when the name of
  the input file contains \<^verbatim>\<open>assurances_with_bad_signature-1\<close>, whatever the assurances
  hold. The same assurance, whose signature is all zero, is accepted under one file name
  and refused under the other.
\<close>

theorem assurances_signature_by_filename:
  "process_assurances (example_assurances_input ''vector-1.json'') example_assurances_state
     = Inr (Ok [''report0''],
            example_assurances_state\<lparr>avail_assignments := [ReportDict ''report0'' (Some 11)]\<rparr>,
            [SomeDict ''report0'' (Some 11)]) \<and>
   process_assurances (example_assurances_input ''assurances_with_bad_signature-1.json'')
       example_assurances_state
     = Inr (Err bad_signature, example_assurances_state, [SomeDict ''report0'' (Some 11)])"
  by (simp add: assurances_eval set_bits_1)

lemma process_assurances_error:
  assumes "process_assurances input_data pre_state = Inr (Err e, post_state, orig)"
  shows "\<exists>extra. post_state = pre_state
            \<lparr>avail_assignments := map (sweep_assignment (input_slot input_data))
                                     (avail_assignments pre_state)
                                   @ replicate extra NoneDict\<rparr>"
proof -
  have z: "pre_state\<lparr>avail_assignments := xs\<rparr> =
           pre_state\<lparr>avail_assignments := xs @ replicate 0 NoneDict\<rparr>" for xs
    by simp
  from assms show ?thesis
    unfolding process_assurances_def Let_def extend_to_def
    by (auto split: if_splits option.splits sum.splits prod.splits intro: exI[of _ 0])
qed

text \<open>
  C6, as the code has it. An exception of the Safrole \<^verbatim>\<open>process_block\<close> leaves the state
  of the manager as it was. The assurances component gives nothing to \<^verbatim>\<open>save_state\<close>
  when the output is an error; the post-state it returns with the error is the pre-state
  in which every entry of \<^verbatim>\<open>avail_assignments\<close> has gone through the sweep of stale
  reports (and the list may have been padded with empty entries), all other fields being
  those of the pre-state.
\<close>

theorem stf_error_atomicity:
  "(fst (manager_process_block env self inp) = Inl err
      \<longrightarrow> snd (manager_process_block env self inp) = self) \<and>
   (assurances_process_block input_data pre_state = Some (Err e, post_state, saved)
      \<longrightarrow> saved = None \<and>
          (\<exists>extra. post_state = pre_state
             \<lparr>avail_assignments := map (sweep_assignment (input_slot input_data))
                                      (avail_assignments pre_state)
                                    @ replicate extra NoneDict\<rparr>))"
proof (intro conjI impI)
  assume "fst (manager_process_block env self inp) = Inl err"
  then show "snd (manager_process_block env self inp) = self"
    by (auto simp: manager_process_block_def split: sum.splits prod.splits)
next
  assume a: "assurances_process_block input_data pre_state = Some (Err e, post_state, saved)"
  then show "saved = None"
    by (auto simp: assurances_process_block_def split: sum.splits prod.splits)
  from a obtain orig where
    "process_assurances input_data pre_state = Inr (Err e, post_state, orig)"
    by (auto simp: assurances_process_block_def split: sum.splits prod.splits)
  then show "\<exists>extra. post_state = pre_state
             \<lparr>avail_assignments := map (sweep_assignment (input_slot input_data))
                                      (avail_assignments pre_state)
                                    @ replicate extra NoneDict\<rparr>"
    by (rule process_assurances_error)
qed


theorem stf_error_atomicity_witness:
  "fst (manager_process_block example_env \<lparr>state = example_state\<rparr> (example_input\<lparr>slot := 10\<rparr>))
     = Inl bad_slot \<and>
   snd (manager_process_block example_env \<lparr>state = example_state\<rparr> (example_input\<lparr>slot := 10\<rparr>))
     = \<lparr>state = example_state\<rparr> \<and>
   (\<exists>post_state saved.
      assurances_process_block
        example_bad_index_input example_stale_state
        = Some (Err bad_validator_index, post_state, saved) \<and>
      saved = None \<and> avail_assignments post_state = [NoneDict])"
proof -
  let ?m = "manager_process_block example_env \<lparr>state = example_state\<rparr> (example_input\<lparr>slot := 10\<rparr>)"
  have s: "fst ?m = Inl bad_slot"
    by (simp add: manager_process_block_def process_block_def example_state_def example_input_def)
  obtain o' post_state saved where
    r: "assurances_process_block
          example_bad_index_input example_stale_state
        = Some (o', post_state, saved)" and o': "o' = Err bad_validator_index"
    by (simp add: assurances_eval example_stale_state_def example_bad_index_input_def)
  note t = stf_error_atomicity [of example_env "\<lparr>state = example_state\<rparr>"
      "example_input\<lparr>slot := 10\<rparr>" bad_slot
      example_bad_index_input example_stale_state
      bad_validator_index post_state saved]
  from t s have "snd ?m = \<lparr>state = example_state\<rparr>" by blast
  moreover from t r o' have "saved = None" by blast
  moreover have "avail_assignments post_state = [NoneDict]"
    using r by (auto simp: assurances_eval example_stale_state_def example_bad_index_input_def)
  ultimately show ?thesis using s r o' by blast
qed

text \<open>
  The claim fails for the state handed back: with a stale assignment in the pre-state, an
  input refused for its validator index comes back with the assignment cleared.
\<close>

theorem assurances_partial_post_state_counterexample:
  "assurances_process_block
      example_bad_index_input example_stale_state
     = Some (Err bad_validator_index, example_stale_state\<lparr>avail_assignments := [NoneDict]\<rparr>, None) \<and>
   example_stale_state\<lparr>avail_assignments := [NoneDict]\<rparr> \<noteq> example_stale_state"
  by (simp add: assurances_eval example_stale_state_def example_bad_index_input_def)


section \<open>Properties of the preimages STF\<close>







end
